theory Spec2Isabelle
  imports Complex_Main "HOL-Library.AList" "HOL-Library.Sublist"
begin


section \<open>File paths\<close>

text \<open>
  Both file-backed providers name a record's file with
  \<^verbatim>\<open>path.join(directory, `${id}.json`)\<close>. On a POSIX system \<^verbatim>\<open>path.join\<close> puts the
  parts together with \<^verbatim>\<open>/\<close> and normalises the result: empty segments and
  \<^verbatim>\<open>.\<close> are dropped and \<^verbatim>\<open>..\<close> removes the segment before it (at the
  root there is none to remove). A path is the list of its segments from the root;
  two ids name the same file when their paths are equal.
\<close>

fun segments :: "string \<Rightarrow> string list" where
  "segments [] = [[]]"
| "segments (c # cs) =
     (if c = CHR ''/'' then [] # segments cs
      else case segments cs of
             [] \<Rightarrow> [[c]]
           | seg # rest \<Rightarrow> (c # seg) # rest)"

text \<open>\<open>up\<close> is the path walked so far, innermost segment first.\<close>

fun resolve :: "string list \<Rightarrow> string list \<Rightarrow> string list" where
  "resolve up [] = up"
| "resolve up (seg # segs) =
     (if seg = [] \<or> seg = ''.'' then resolve up segs
      else if seg = ''..'' then resolve (tl up) segs
      else resolve (seg # up) segs)"

definition path_join :: "string list \<Rightarrow> string \<Rightarrow> string list" where
  "path_join dir name = rev (resolve [] (dir @ segments name))"


section \<open>The ERC20 escrow action provider\<close>

text \<open>
  \<^verbatim>\<open>ERC20EscrowActionProvider\<close> keeps one JSON file per record in its
  \<^verbatim>\<open>temp_storage\<close> directory and moves USDC with \<^verbatim>\<open>writeContract\<close>.
  The files are an association list from file path to record, a JSON file is the
  record it serialises, and the token transfers that \<^verbatim>\<open>writeContract\<close> accepted are
  kept in a log, so that "a transfer happened" is a fact about the state.
  Writing a file is taken to succeed, and the files at these paths are the provider's
  own records. What the chain and the clock answer is an
  input of every call (\<open>call_env\<close>); \<^verbatim>\<open>parseUnits\<close> of the viem library is a
  parameter of the provider.
\<close>

datatype EscrowStatus = PENDING | RELEASED | REFUNDED | CANCELLED

record EscrowTransaction =
  esc_id :: string
  esc_clientAddress :: string
  esc_agentAddress :: string
  esc_providerAddress :: string
  esc_tokenAddress :: string
  esc_amount :: string
  esc_serviceId :: string
  esc_status :: EscrowStatus
  esc_clientTxHash :: "string option"
  esc_releaseTxHash :: "string option"
  esc_createdAt :: string
  esc_updatedAt :: string
  esc_metadata :: "(string \<times> string) list option"

text \<open>The record that \<^verbatim>\<open>transferTokens\<close> files in the same directory; it has no status.\<close>

record TransferRecord =
  tr_id :: string
  tr_fromAddress :: string
  tr_toAddress :: string
  tr_tokenAddress :: string
  tr_amount :: string
  tr_txHash :: string
  tr_timestamp :: string
  tr_metadata :: "(string \<times> string) list option"

datatype stored = EscrowRec EscrowTransaction | TransferRec TransferRecord

text \<open>One accepted \<^verbatim>\<open>transfer(to, units)\<close> call on the token contract.\<close>

record token_transfer =
  tt_sender :: string
  tt_recipient :: string
  tt_token :: string
  tt_units :: int

record escrow_state =
  storage :: "(string list \<times> stored) list"
  transfers :: "token_transfer list"

text \<open>\<open>storagePath\<close> is \<^verbatim>\<open>path.join(process.cwd(), "temp_storage")\<close>, in segments.\<close>

record escrow_config =
  demoMode :: bool
  walletKeys :: bool
  storagePath :: "string list"
  agentAccount :: string
  parseUnits :: "string \<Rightarrow> int option"

text \<open>
  \<open>chain\<close> is what \<^verbatim>\<open>writeContract\<close> does in this call: \<open>Inl msg\<close> when it throws,
  \<open>Inr hash\<close> when it returns a transaction hash. \<open>simulated\<close> is the random hash
  of demo mode and \<open>now\<close> the clock.
\<close>

record call_env =
  now :: string
  chain :: "string + string"
  simulated :: string

datatype escrow_error =
    MISSING_WALLET_KEYS
  | WALLET_NOT_INITIALIZED
  | ESCROW_NOT_FOUND
  | ESCROW_ALREADY_RELEASED
  | INVALID_DECIMAL_NUMBER
  | CHAIN_ERROR string

record escrow_reply =
  rp_escrowId :: string
  rp_amount :: string
  rp_transactionHash :: string
  rp_status :: EscrowStatus

record ReleaseEscrowInput =
  rel_escrowId :: string
  rel_reason :: "string option"

record RefundEscrowInput =
  ref_escrowId :: string
  ref_reason :: "string option"

text \<open>\<^verbatim>\<open>initClients\<close> returns normally in demo mode or when the three keys are set.\<close>

definition initClients :: "escrow_config \<Rightarrow> bool" where
  "initClients c = (demoMode c \<or> walletKeys c)"

definition filePath :: "escrow_config \<Rightarrow> string \<Rightarrow> string list" where
  "filePath c key = path_join (storagePath c) (key @ ''.json'')"

definition storeTransaction :: "escrow_config \<Rightarrow> escrow_state \<Rightarrow> string \<Rightarrow> stored \<Rightarrow> escrow_state" where
  "storeTransaction c s key d = s\<lparr>storage := AList.update (filePath c key) d (storage s)\<rparr>"

definition getTransaction :: "escrow_config \<Rightarrow> escrow_state \<Rightarrow> string \<Rightarrow> stored option" where
  "getTransaction c s key = map_of (storage s) (filePath c key)"

definition getEscrowDetails :: "escrow_config \<Rightarrow> escrow_state \<Rightarrow> string \<Rightarrow> escrow_error + stored" where
  "getEscrowDetails c s key =
     (if \<not> initClients c then Inl MISSING_WALLET_KEYS
      else case getTransaction c s key of
             None \<Rightarrow> Inl ESCROW_NOT_FOUND
           | Some d \<Rightarrow> Inr d)"

text \<open>A JavaScript string is truthy when it is present and not empty.\<close>

fun truthy :: "string option \<Rightarrow> bool" where
  "truthy None = False"
| "truthy (Some r) = (r \<noteq> [])"

definition set_reason :: "string \<Rightarrow> string option \<Rightarrow> (string \<times> string) list option \<Rightarrow> (string \<times> string) list option" where
  "set_reason field reason md =
     (let m = (case md of None \<Rightarrow> [] | Some m \<Rightarrow> m)
      in Some (case reason of
                 None \<Rightarrow> m
               | Some r \<Rightarrow> if truthy reason then AList.update field r m else m))"

text \<open>
  The transfer of both operations: outside demo mode \<^verbatim>\<open>parseUnits(amount, 6)\<close> and
  then \<^verbatim>\<open>agentClient.writeContract(transfer(to, units))\<close>, either of which may throw;
  in demo mode only a simulated hash.
\<close>

definition agent_transfer ::
  "escrow_config \<Rightarrow> call_env \<Rightarrow> escrow_state \<Rightarrow> string \<Rightarrow> string \<Rightarrow> string \<Rightarrow> escrow_error + (string \<times> escrow_state)" where
  "agent_transfer c env s token recipient amt =
     (if \<not> demoMode c then
        (case parseUnits c amt of
           None \<Rightarrow> Inl INVALID_DECIMAL_NUMBER
         | Some units \<Rightarrow>
             (case chain env of
                Inl msg \<Rightarrow> Inl (CHAIN_ERROR msg)
              | Inr hash \<Rightarrow>
                  Inr (hash, s\<lparr>transfers := transfers s @
                         [\<lparr>tt_sender = agentAccount c, tt_recipient = recipient,
                           tt_token = token, tt_units = units\<rparr>]\<rparr>)))
      else Inr (simulated env, s))"

definition releaseEscrow ::
  "escrow_config \<Rightarrow> call_env \<Rightarrow> escrow_state \<Rightarrow> ReleaseEscrowInput \<Rightarrow> (escrow_error + escrow_reply) \<times> escrow_state" where
  "releaseEscrow c env s args =
     (if \<not> initClients c then (Inl MISSING_WALLET_KEYS, s)
      else case getEscrowDetails c s (rel_escrowId args) of
        Inl _ \<Rightarrow> (Inl ESCROW_NOT_FOUND, s)
      | Inr (TransferRec _) \<Rightarrow> (Inl ESCROW_ALREADY_RELEASED, s)
      | Inr (EscrowRec escrowDetails) \<Rightarrow>
          if esc_status escrowDetails \<noteq> PENDING then (Inl ESCROW_ALREADY_RELEASED, s)
          else
            (case agent_transfer c env s (esc_tokenAddress escrowDetails)
                    (esc_providerAddress escrowDetails) (esc_amount escrowDetails) of
               Inl err \<Rightarrow> (Inl err, s)
             | Inr (transferResult, s1) \<Rightarrow>
                 (Inr \<lparr>rp_escrowId = rel_escrowId args, rp_amount = esc_amount escrowDetails,
                       rp_transactionHash = transferResult, rp_status = RELEASED\<rparr>,
                  storeTransaction c s1 (rel_escrowId args)
                    (EscrowRec (escrowDetails\<lparr>esc_status := RELEASED,
                       esc_releaseTxHash := Some transferResult,
                       esc_updatedAt := now env,
                       esc_metadata := set_reason ''release_reason'' (rel_reason args)
                                          (esc_metadata escrowDetails)\<rparr>)))))"

definition refundEscrow ::
  "escrow_config \<Rightarrow> call_env \<Rightarrow> escrow_state \<Rightarrow> RefundEscrowInput \<Rightarrow> (escrow_error + escrow_reply) \<times> escrow_state" where
  "refundEscrow c env s args =
     (if \<not> initClients c then (Inl MISSING_WALLET_KEYS, s)
      else case getEscrowDetails c s (ref_escrowId args) of
        Inl _ \<Rightarrow> (Inl ESCROW_NOT_FOUND, s)
      | Inr (TransferRec _) \<Rightarrow> (Inl ESCROW_ALREADY_RELEASED, s)
      | Inr (EscrowRec escrowDetails) \<Rightarrow>
          if esc_status escrowDetails \<noteq> PENDING then (Inl ESCROW_ALREADY_RELEASED, s)
          else
            (case agent_transfer c env s (esc_tokenAddress escrowDetails)
                    (esc_clientAddress escrowDetails) (esc_amount escrowDetails) of
               Inl err \<Rightarrow> (Inl err, s)
             | Inr (transferResult, s1) \<Rightarrow>
                 (Inr \<lparr>rp_escrowId = ref_escrowId args, rp_amount = esc_amount escrowDetails,
                       rp_transactionHash = transferResult, rp_status = REFUNDED\<rparr>,
                  storeTransaction c s1 (ref_escrowId args)
                    (EscrowRec (escrowDetails\<lparr>esc_status := REFUNDED,
                       esc_releaseTxHash := Some transferResult,
                       esc_updatedAt := now env,
                       esc_metadata := set_reason ''refund_reason'' (ref_reason args)
                                          (esc_metadata escrowDetails)\<rparr>)))))"

text \<open>A sequence of release and refund calls, each with what the world answers to it.\<close>

datatype escrow_call = Release call_env ReleaseEscrowInput | Refund call_env RefundEscrowInput

fun target :: "escrow_call \<Rightarrow> string" where
  "target (Release env a) = rel_escrowId a"
| "target (Refund env a) = ref_escrowId a"

fun escrow_step :: "escrow_config \<Rightarrow> escrow_state \<Rightarrow> escrow_call \<Rightarrow> (escrow_error + escrow_reply) \<times> escrow_state" where
  "escrow_step c s (Release env a) = releaseEscrow c env s a"
| "escrow_step c s (Refund env a) = refundEscrow c env s a"

fun escrow_run :: "escrow_config \<Rightarrow> escrow_state \<Rightarrow> escrow_call list \<Rightarrow> (escrow_error + escrow_reply) list \<times> escrow_state" where
  "escrow_run c s [] = ([], s)"
| "escrow_run c s (x # xs) =
     (case escrow_step c s x of
        (r, s1) \<Rightarrow> (case escrow_run c s1 xs of (rs, s2) \<Rightarrow> (r # rs, s2)))"

definition status_of :: "escrow_config \<Rightarrow> escrow_state \<Rightarrow> string \<Rightarrow> EscrowStatus option" where
  "status_of c s key =
     (case getTransaction c s key of
        Some (EscrowRec e) \<Rightarrow> Some (esc_status e)
      | _ \<Rightarrow> None)"

fun terminal_of :: "escrow_call \<Rightarrow> EscrowStatus" where
  "terminal_of (Release env a) = RELEASED"
| "terminal_of (Refund env a) = REFUNDED"

text \<open>
  The refund that the specification words ask for, to compare with what
  \<open>refundEscrow\<close> transfers: \<open>pct\<close> percent of the escrow's amount, in token units.
\<close>

definition spec_refund_units :: "escrow_config \<Rightarrow> EscrowTransaction \<Rightarrow> int \<Rightarrow> int option" where
  "spec_refund_units c e pct =
     (case parseUnits c (esc_amount e) of
        None \<Rightarrow> None
      | Some units \<Rightarrow> Some (units * pct div 100))"

section \<open>The marketplace action provider\<close>

text \<open>
  \<^verbatim>\<open>MarketplaceActionProvider\<close> keeps every record as a JSON object in one Recall
  bucket, under the key prefixes \<^verbatim>\<open>services/\<close>, \<^verbatim>\<open>bookings/\<close> and
  \<^verbatim>\<open>disputes/\<close>. The bucket is modelled by one association list per prefix, from
  the rest of the key to the object; an object is the record this provider writes
  under that prefix, or text that \<^verbatim>\<open>JSON.parse\<close> rejects. A key that is written
  again keeps its place and a new key goes to the end; a query lists a prefix in
  that order. Every successful \<^verbatim>\<open>bucketManager.add\<close> is also appended to a
  journal, which keeps the order of the writes of one call. Whether the network
  answers a get, an add or a query is an input of every call (\<open>net\<close>), as are the
  clock and the random number.
\<close>

datatype SERVICE_STATUS = SERVICE_AVAILABLE | SERVICE_BOOKED | SERVICE_COMPLETED | SERVICE_CANCELLED

datatype BOOKING_STATUS =
  BOOKING_PENDING | BOOKING_CONFIRMED | BOOKING_COMPLETED | BOOKING_DISPUTED
  | BOOKING_CANCELLED | BOOKING_REFUNDED

datatype DISPUTE_STATUS = DISPUTE_PENDING | DISPUTE_RESOLVED

datatype resolution = full_refund | partial_refund | no_refund

datatype meetingPlatform = zoom | meet | jitsi

datatype 'a json = Json 'a | Malformed

record serviceObject =
  so_id :: string
  so_provider :: string
  so_title :: string
  so_description :: string
  so_date :: string
  so_startTime :: string
  so_endTime :: string
  so_timeZone :: string
  so_price :: string
  so_status :: SERVICE_STATUS
  so_createdAt :: string
  so_bookedBy :: "string option"
  so_updatedAt :: "string option"

text \<open>The copy of the service that a booking carries in its \<^verbatim>\<open>service\<close> field.\<close>

record bookedService =
  bs_title :: string
  bs_provider :: string
  bs_date :: string
  bs_startTime :: string
  bs_endTime :: string
  bs_timeZone :: string
  bs_price :: string

record bookingObject =
  bo_id :: string
  bo_serviceId :: string
  bo_service :: bookedService
  bo_clientName :: string
  bo_clientEmail :: string
  bo_meetingPlatform :: meetingPlatform
  bo_meetingLink :: string
  bo_status :: BOOKING_STATUS
  bo_meetingNotes :: string
  bo_createdAt :: string
  bo_completedAt :: "string option"
  bo_successful :: "bool option"
  bo_comments :: "string option"
  bo_disputeReason :: "string option"
  bo_disputeEvidence :: "string option"
  bo_disputeFiledAt :: "string option"
  bo_disputeResolution :: "resolution option"
  bo_disputeResolutionNotes :: "string option"
  bo_refundAmount :: "string option"
  bo_resolvedAt :: "string option"

record disputeObject =
  do_id :: string
  do_bookingId :: string
  do_serviceId :: string
  do_reason :: string
  do_evidence :: string
  do_status :: DISPUTE_STATUS
  do_meetingNotes :: string
  do_createdAt :: string
  do_resolution :: "resolution option"
  do_resolutionNotes :: "string option"
  do_refundAmount :: "string option"
  do_resolvedAt :: "string option"

datatype bucket_write =
    PutService string serviceObject
  | PutBooking string bookingObject
  | PutDispute string disputeObject

record market_state =
  recallClient :: bool
  mainBucket :: "string option"
  services :: "(string \<times> serviceObject json) list"
  bookings :: "(string \<times> bookingObject json) list"
  disputes :: "(string \<times> disputeObject json) list"
  journal :: "bucket_write list"

record net =
  timestamp :: string
  random :: string
  iso :: string
  get_ok :: "string \<Rightarrow> bool"
  add_ok :: "string \<Rightarrow> bool"
  query_ok :: "string \<Rightarrow> bool"

definition SERVICES :: string where "SERVICES = ''services/''"
definition BOOKINGS :: string where "BOOKINGS = ''bookings/''"
definition DISPUTES :: string where "DISPUTES = ''disputes/''"

definition isInitialized :: "market_state \<Rightarrow> bool" where
  "isInitialized s = (recallClient s \<and> mainBucket s \<noteq> None)"

fun write_key :: "bucket_write \<Rightarrow> string" where
  "write_key (PutService k v) = SERVICES @ k"
| "write_key (PutBooking k v) = BOOKINGS @ k"
| "write_key (PutDispute k v) = DISPUTES @ k"

fun apply_write :: "market_state \<Rightarrow> bucket_write \<Rightarrow> market_state" where
  "apply_write s (PutService k v) = s\<lparr>services := AList.update k (Json v) (services s)\<rparr>"
| "apply_write s (PutBooking k v) = s\<lparr>bookings := AList.update k (Json v) (bookings s)\<rparr>"
| "apply_write s (PutDispute k v) = s\<lparr>disputes := AList.update k (Json v) (disputes s)\<rparr>"

text \<open>\<^verbatim>\<open>_storeObject\<close>: the success flag of its result and the state after it.\<close>

definition storeObject :: "net \<Rightarrow> market_state \<Rightarrow> bucket_write \<Rightarrow> bool \<times> market_state" where
  "storeObject n s w =
     (if \<not> isInitialized s then (False, s)
      else if add_ok n (write_key w) then (True, (apply_write s w)\<lparr>journal := journal s @ [w]\<rparr>)
      else (False, s))"

text \<open>\<^verbatim>\<open>_getObject\<close>: \<open>None\<close> where the source returns \<^verbatim>\<open>success: false\<close>.\<close>

definition getObject :: "net \<Rightarrow> market_state \<Rightarrow> string \<Rightarrow> (string \<times> 'a json) list \<Rightarrow> string \<Rightarrow> 'a json option" where
  "getObject n s pfx objs k =
     (if \<not> isInitialized s then None
      else if \<not> get_ok n (pfx @ k) then None
      else map_of objs k)"

text \<open>
  \<^verbatim>\<open>_queryObjects\<close>: \<open>None\<close> where the source returns \<^verbatim>\<open>success: false\<close>; an
  object whose content cannot be fetched is skipped.
\<close>

definition queryObjects :: "net \<Rightarrow> market_state \<Rightarrow> string \<Rightarrow> (string \<times> 'a json) list \<Rightarrow> (string \<times> 'a json) list option" where
  "queryObjects n s pfx objs =
     (if \<not> isInitialized s then None
      else if \<not> query_ok n pfx then None
      else Some (filter (\<lambda>(k, v). get_ok n (pfx @ k)) objs))"

text \<open>\<^verbatim>\<open>x || d\<close> on an optional string.\<close>

fun or_else :: "string option \<Rightarrow> string \<Rightarrow> string" where
  "or_else None d = d"
| "or_else (Some x) d = (if x = [] then d else x)"

record CreateServiceArgs =
  cs_provider :: string
  cs_title :: string
  cs_description :: string
  cs_date :: string
  cs_startTime :: string
  cs_endTime :: string
  cs_timeZone :: string
  cs_price :: string

record BookServiceArgs =
  bk_serviceId :: string
  bk_clientName :: string
  bk_clientEmail :: string
  bk_meetingPlatform :: meetingPlatform

record FileDisputeArgs =
  fd_bookingId :: string
  fd_reason :: string
  fd_evidence :: "string option"

record ResolveDisputeArgs =
  rd_bookingId :: string
  rd_resolution :: resolution
  rd_refundAmount :: "string option"
  rd_notes :: string

text \<open>One row of the text that \<^verbatim>\<open>listServices\<close> prints.\<close>

record service_row =
  row_title :: string
  row_provider :: string
  row_date :: string
  row_startTime :: string
  row_endTime :: string
  row_timeZone :: string
  row_price :: string
  row_id :: string

text \<open>Every \<^verbatim>\<open>return\<close> of the five actions, with the data its message carries.\<close>

datatype market_reply =
    MISSING_CLIENT
  | Service_created string
  | Failed_to_create_service
  | Failed_to_list_services
  | No_services_found
  | No_available_services_found
  | Available_Services "service_row list"
  | Booking_service_not_found
  | Booking_error_parsing_service
  | SERVICE_ALREADY_BOOKED
  | Failed_to_create_booking
  | Booking_created_but_service_not_updated
  | Service_booked string string
  | Dispute_booking_not_found
  | Dispute_error_parsing_booking
  | Failed_to_update_booking_with_dispute
  | Booking_disputed_but_no_dispute_record
  | Dispute_filed string
  | Resolution_booking_not_found
  | Resolution_error_parsing_booking
  | Not_currently_disputed BOOKING_STATUS
  | Failed_to_update_booking_with_resolution
  | Dispute_resolved resolution string bool

definition createService :: "net \<Rightarrow> market_state \<Rightarrow> CreateServiceArgs \<Rightarrow> market_reply \<times> market_state" where
  "createService n s args =
     (if \<not> isInitialized s then (MISSING_CLIENT, s)
      else
        let serviceId = ''service_'' @ timestamp n @ ''_'' @ random n;
            serviceObject = \<lparr>so_id = serviceId, so_provider = cs_provider args,
              so_title = cs_title args, so_description = cs_description args,
              so_date = cs_date args, so_startTime = cs_startTime args,
              so_endTime = cs_endTime args, so_timeZone = cs_timeZone args,
              so_price = cs_price args, so_status = SERVICE_AVAILABLE,
              so_createdAt = iso n, so_bookedBy = None, so_updatedAt = None\<rparr>
        in case storeObject n s (PutService serviceId serviceObject) of
             (True, s1) \<Rightarrow> (Service_created serviceId, s1)
           | (False, s1) \<Rightarrow> (Failed_to_create_service, s1))"


definition str_includes :: "string \<Rightarrow> string \<Rightarrow> bool" where
  "str_includes s f = sublist f s"






fun platform_name :: "meetingPlatform \<Rightarrow> string" where
  "platform_name zoom = ''zoom''"
| "platform_name meet = ''meet''"
| "platform_name jitsi = ''jitsi''"

definition bookService :: "net \<Rightarrow> market_state \<Rightarrow> BookServiceArgs \<Rightarrow> market_reply \<times> market_state" where
  "bookService n s args =
     (if \<not> isInitialized s then (MISSING_CLIENT, s)
      else case getObject n s SERVICES (services s) (bk_serviceId args) of
        None \<Rightarrow> (Booking_service_not_found, s)
      | Some Malformed \<Rightarrow> (Booking_error_parsing_service, s)
      | Some (Json service) \<Rightarrow>
          if so_status service \<noteq> SERVICE_AVAILABLE then (SERVICE_ALREADY_BOOKED, s)
          else
            let bookingId = ''booking_'' @ timestamp n @ ''_'' @ random n;
                meetingLink = ''https://'' @ platform_name (bk_meetingPlatform args)
                                @ ''.example.com/meeting/'' @ bookingId;
                bookingObject = \<lparr>bo_id = bookingId, bo_serviceId = bk_serviceId args,
                  bo_service = \<lparr>bs_title = so_title service, bs_provider = so_provider service,
                    bs_date = so_date service, bs_startTime = so_startTime service,
                    bs_endTime = so_endTime service, bs_timeZone = so_timeZone service,
                    bs_price = so_price service\<rparr>,
                  bo_clientName = bk_clientName args, bo_clientEmail = bk_clientEmail args,
                  bo_meetingPlatform = bk_meetingPlatform args, bo_meetingLink = meetingLink,
                  bo_status = BOOKING_CONFIRMED, bo_meetingNotes = [], bo_createdAt = iso n,
                  bo_completedAt = None, bo_successful = None, bo_comments = None,
                  bo_disputeReason = None, bo_disputeEvidence = None, bo_disputeFiledAt = None,
                  bo_disputeResolution = None, bo_disputeResolutionNotes = None,
                  bo_refundAmount = None, bo_resolvedAt = None\<rparr>
            in case storeObject n s (PutBooking bookingId bookingObject) of
                 (False, s1) \<Rightarrow> (Failed_to_create_booking, s1)
               | (True, s1) \<Rightarrow>
                   (case storeObject n s1
                           (PutService (bk_serviceId args)
                              (service\<lparr>so_status := SERVICE_BOOKED, so_bookedBy := Some bookingId,
                                 so_updatedAt := Some (iso n)\<rparr>)) of
                      (False, s2) \<Rightarrow> (Booking_created_but_service_not_updated, s2)
                    | (True, s2) \<Rightarrow> (Service_booked bookingId meetingLink, s2)))"

definition fileDispute :: "net \<Rightarrow> market_state \<Rightarrow> FileDisputeArgs \<Rightarrow> market_reply \<times> market_state" where
  "fileDispute n s args =
     (if \<not> isInitialized s then (MISSING_CLIENT, s)
      else case getObject n s BOOKINGS (bookings s) (fd_bookingId args) of
        None \<Rightarrow> (Dispute_booking_not_found, s)
      | Some Malformed \<Rightarrow> (Dispute_error_parsing_booking, s)
      | Some (Json booking) \<Rightarrow>
          (case storeObject n s
                  (PutBooking (fd_bookingId args)
                     (booking\<lparr>bo_status := BOOKING_DISPUTED,
                        bo_disputeReason := Some (fd_reason args),
                        bo_disputeEvidence := Some (or_else (fd_evidence args) []),
                        bo_disputeFiledAt := Some (iso n)\<rparr>)) of
             (False, s1) \<Rightarrow> (Failed_to_update_booking_with_dispute, s1)
           | (True, s1) \<Rightarrow>
               let disputeId = ''dispute_'' @ timestamp n @ ''_'' @ fd_bookingId args;
                   disputeObject = \<lparr>do_id = disputeId, do_bookingId = fd_bookingId args,
                     do_serviceId = bo_serviceId booking, do_reason = fd_reason args,
                     do_evidence = or_else (fd_evidence args) [], do_status = DISPUTE_PENDING,
                     do_meetingNotes = bo_meetingNotes booking, do_createdAt = iso n,
                     do_resolution = None, do_resolutionNotes = None, do_refundAmount = None,
                     do_resolvedAt = None\<rparr>
               in case storeObject n s1 (PutDispute disputeId disputeObject) of
                    (False, s2) \<Rightarrow> (Booking_disputed_but_no_dispute_record, s2)
                  | (True, s2) \<Rightarrow> (Dispute_filed disputeId, s2)))"

text \<open>The loop of \<^verbatim>\<open>resolveDispute\<close>: the first dispute that parses and names the booking.\<close>

fun first_dispute :: "string \<Rightarrow> (string \<times> disputeObject json) list \<Rightarrow> (string \<times> disputeObject) option" where
  "first_dispute b [] = None"
| "first_dispute b ((k, Malformed) # xs) = first_dispute b xs"
| "first_dispute b ((k, Json d) # xs) =
     (if do_bookingId d = b then Some (k, d) else first_dispute b xs)"

definition resolveDispute :: "net \<Rightarrow> market_state \<Rightarrow> ResolveDisputeArgs \<Rightarrow> market_reply \<times> market_state" where
  "resolveDispute n s args =
     (if \<not> isInitialized s then (MISSING_CLIENT, s)
      else case getObject n s BOOKINGS (bookings s) (rd_bookingId args) of
        None \<Rightarrow> (Resolution_booking_not_found, s)
      | Some Malformed \<Rightarrow> (Resolution_error_parsing_booking, s)
      | Some (Json booking) \<Rightarrow>
          if bo_status booking \<noteq> BOOKING_DISPUTED then (Not_currently_disputed (bo_status booking), s)
          else
            (case storeObject n s
                    (PutBooking (rd_bookingId args)
                       (booking\<lparr>bo_status := (if rd_resolution args = no_refund
                                                then BOOKING_COMPLETED else BOOKING_REFUNDED),
                          bo_disputeResolution := Some (rd_resolution args),
                          bo_disputeResolutionNotes := Some (rd_notes args),
                          bo_refundAmount := Some (or_else (rd_refundAmount args) ''0''),
                          bo_resolvedAt := Some (iso n)\<rparr>)) of
               (False, s1) \<Rightarrow> (Failed_to_update_booking_with_resolution, s1)
             | (True, s1) \<Rightarrow>
                 let found = (case queryObjects n s1 DISPUTES (disputes s1) of
                                None \<Rightarrow> None
                              | Some data \<Rightarrow> first_dispute (rd_bookingId args) data);
                     s2 = (case found of
                             None \<Rightarrow> s1
                           | Some (k, disputeObj) \<Rightarrow>
                               snd (storeObject n s1
                                 (PutDispute k
                                    (disputeObj\<lparr>do_status := DISPUTE_RESOLVED,
                                       do_resolution := Some (rd_resolution args),
                                       do_resolutionNotes := Some (rd_notes args),
                                       do_refundAmount := Some (or_else (rd_refundAmount args) ''0''),
                                       do_resolvedAt := Some (iso n)\<rparr>))));
                     shown = (case rd_resolution args of
                                full_refund \<Rightarrow> bs_price (bo_service booking)
                              | partial_refund \<Rightarrow>
                                  (case rd_refundAmount args of None \<Rightarrow> ''undefined'' | Some a \<Rightarrow> a)
                              | no_refund \<Rightarrow> [])
                 in (Dispute_resolved (rd_resolution args) shown (found \<noteq> None), s2)))"

section \<open>The moderia action provider\<close>

text \<open>
  \<^verbatim>\<open>ModeriaActionProvider\<close> keeps services, bookings and escrows in one Recall bucket
  each, registered by name in \<^verbatim>\<open>this.buckets\<close>, and meetings, transcripts, analyses
  and a copy of the escrows as files under \<^verbatim>\<open>moderia_data\<close>. A bucket field of the
  state is \<open>None\<close> while no bucket is registered under that name, and otherwise the
  bucket id with the objects of the bucket, in the order a query lists them. As
  for the marketplace, an object is the record that is written there or text that
  does not parse, the successful adds are kept in a journal, and what the network,
  the chain, the clock and the random bytes answer is an input of every call
  (\<open>mod_env\<close>). Local files are taken to be well-formed and writable. Adding to or
  querying a bucket that is not registered is taken to throw. The local copies of
  the escrows are kept by file path, \<open>moderia_storagePath\<close> being
  \<^verbatim>\<open>path.join(process.cwd(), "moderia_data")\<close> in segments.
\<close>

datatype ServiceStatus = AVAILABLE | BOOKED | COMPLETED | Service_CANCELLED

datatype BookingStatus = CONFIRMED | Booking_COMPLETED | Booking_CANCELLED | DISPUTED

datatype MeetingStatus = SCHEDULED | JOINING | ACTIVE | ENDED | FAILED

record ServiceListing =
  sl_id :: string
  sl_serviceType :: string
  sl_providerName :: string
  sl_startTime :: string
  sl_endTime :: string
  sl_price :: string
  sl_walletAddress :: string
  sl_meetingLink :: string
  sl_description :: "string option"
  sl_status :: ServiceStatus
  sl_createdAt :: string
  sl_bucketId :: string
  sl_objectKey :: string

record ServiceBooking =
  sb_id :: string
  sb_serviceId :: string
  sb_clientName :: string
  sb_clientEmail :: "string option"
  sb_specialRequests :: "string option"
  sb_bookingTime :: string
  sb_status :: BookingStatus
  sb_escrowId :: "string option"
  sb_meetingId :: "string option"
  sb_bucketId :: string
  sb_objectKey :: string

record ModeriaEscrow =
  me_id :: string
  me_bookingId :: string
  me_amount :: string
  me_providerAddress :: string
  me_clientAddress :: string
  me_agentAddress :: string
  me_status :: EscrowStatus
  me_createdAt :: string
  me_completedAt :: "string option"
  me_txHash :: "string option"

record Meeting =
  mt_id :: string
  mt_bookingId :: string
  mt_url :: string
  mt_title :: string
  mt_status :: MeetingStatus
  mt_startTime :: string
  mt_endTime :: "string option"
  mt_participantCount :: nat
  mt_hasTranscript :: bool
  mt_hasSummary :: bool
  mt_hasAnalysis :: bool
  mt_transcriptUrl :: "string option"
  mt_summaryUrl :: "string option"
  mt_qualityScore :: "nat option"

text \<open>
  The text that \<^verbatim>\<open>analyzeServiceQuality\<close> returns and files: a fixed template in
  which only the meeting id and the overall score are filled in.
\<close>

record quality_report =
  qr_meetingId :: string
  qr_overallScore :: nat
  qr_metrics :: "(string \<times> nat) list"
  qr_recommendation :: string

datatype moderia_write =
    AddService string ServiceListing
  | AddBooking string ServiceBooking
  | AddEscrow string ModeriaEscrow

type_synonym 'a bucket = "(string \<times> (string \<times> 'a json) list) option"

record moderia_state =
  teacherClient :: bool
  studentClient :: bool
  agentClient :: bool
  teacherWallet :: "string option"
  studentWallet :: "string option"
  agentWallet :: "string option"
  services_bucket :: "ServiceListing bucket"
  bookings_bucket :: "ServiceBooking bucket"
  transactions_bucket :: "ModeriaEscrow bucket"
  moderia_storagePath :: "string list"
  meetings_dir :: "(string \<times> Meeting) list"
  transcripts_dir :: "(string \<times> string) list"
  analysis_dir :: "(string \<times> quality_report) list"
  transactions_dir :: "(string list \<times> ModeriaEscrow) list"
  sent :: "token_transfer list"
  added :: "moderia_write list"

text \<open>
  \<open>m_created\<close> is the bucket that \<^verbatim>\<open>bucketManager.create()\<close> returns, \<open>None\<close> when
  it throws; \<open>m_buffer\<close> tells whether \<^verbatim>\<open>content.toString()\<close> yields the text of
  an object (a Buffer) or not (a plain byte array, whose \<^verbatim>\<open>toString()\<close> is no JSON).
\<close>

record mod_env =
  m_timestamp :: string
  m_hex :: string
  m_iso :: string
  m_created :: "string option"
  m_query_ok :: bool
  m_get_ok :: "string \<Rightarrow> bool"
  m_add_ok :: "string \<Rightarrow> bool"
  m_add_again_ok :: bool
  m_chain :: "string + string"
  m_buffer :: bool
  m_parseUnits :: "string \<Rightarrow> int option"

definition USDC_TOKEN_ADDRESS :: string where
  "USDC_TOKEN_ADDRESS = ''0x036CbD53842c5426634e7929541eC2318f3dCF7e''"

fun objects_of :: "'a bucket \<Rightarrow> (string \<times> 'a json) list" where
  "objects_of None = []"
| "objects_of (Some (b, objs)) = objs"

fun bucket_id :: "'a bucket \<Rightarrow> string" where
  "bucket_id None = []"
| "bucket_id (Some (b, objs)) = b"

fun bucket_add :: "string \<Rightarrow> 'a \<Rightarrow> 'a bucket \<Rightarrow> 'a bucket" where
  "bucket_add k v None = None"
| "bucket_add k v (Some (b, objs)) = Some (b, AList.update k (Json v) objs)"



record ModeriaBookServiceArgs =
  mb_serviceId :: string
  mb_clientName :: string
  mb_clientEmail :: "string option"
  mb_specialRequests :: "string option"


record ReleaseFundsArgs =
  rf_escrowId :: string
  rf_amount :: "string option"

record listing_row =
  lr_id :: string
  lr_serviceType :: string
  lr_providerName :: string
  lr_startTime :: string
  lr_endTime :: string
  lr_price :: string
  lr_description :: string

datatype moderia_reply =
    Moderia_MISSING_CLIENT
  | Service_listing_created string
  | Failed_to_create_service_listing
  | No_services_bucket_found
  | No_available_services
  | Available_listings "listing_row list"
  | Failed_to_list_available_services
  | SERVICE_NOT_FOUND
  | Service_is_not_available ServiceStatus
  | Successfully_booked string string
  | Failed_to_book_service
  | Meeting_not_found string
  | Transcript_not_found string
  | Quality_analysis quality_report
  | Moderia_WALLET_NOT_INITIALIZED
  | Moderia_ESCROW_NOT_FOUND
  | Already_settled EscrowStatus
  | Successfully_released string string string
  | Failed_to_release_funds







text \<open>The search loop of \<^verbatim>\<open>bookService\<close>: \<open>Inl\<close> when a get or a parse throws.\<close>

fun find_listing :: "mod_env \<Rightarrow> string \<Rightarrow> (string \<times> ServiceListing json) list \<Rightarrow> unit + ServiceListing option" where
  "find_listing n sid [] = Inr None"
| "find_listing n sid ((k, c) # xs) =
     (if \<not> m_get_ok n k then Inl ()
      else case c of
             Malformed \<Rightarrow> Inl ()
           | Json service \<Rightarrow> if sl_id service = sid then Inr (Some service)
                             else find_listing n sid xs)"

definition moderia_bookService ::
  "mod_env \<Rightarrow> moderia_state \<Rightarrow> ModeriaBookServiceArgs \<Rightarrow> moderia_reply \<times> moderia_state" where
  "moderia_bookService n s args =
     (if \<not> studentClient s then (Moderia_MISSING_CLIENT, s)
      else if services_bucket s = None then (No_services_bucket_found, s)
      else
        case (if bookings_bucket s = None
              then (case m_created n of
                      None \<Rightarrow> None
                    | Some b \<Rightarrow> Some (s\<lparr>bookings_bucket := Some (b, [])\<rparr>))
              else Some s) of
          None \<Rightarrow> (Failed_to_book_service, s)
        | Some s1 \<Rightarrow>
            if \<not> m_query_ok n then (Failed_to_book_service, s1)
            else case find_listing n (mb_serviceId args) (objects_of (services_bucket s1)) of
              Inl _ \<Rightarrow> (Failed_to_book_service, s1)
            | Inr None \<Rightarrow> (SERVICE_NOT_FOUND, s1)
            | Inr (Some serviceListing) \<Rightarrow>
                if sl_status serviceListing \<noteq> AVAILABLE
                then (Service_is_not_available (sl_status serviceListing), s1)
                else
                  let bookingId = ''booking_'' @ m_timestamp n @ ''_'' @ m_hex n;
                      booking = \<lparr>sb_id = bookingId, sb_serviceId = mb_serviceId args,
                        sb_clientName = mb_clientName args, sb_clientEmail = mb_clientEmail args,
                        sb_specialRequests = mb_specialRequests args, sb_bookingTime = m_iso n,
                        sb_status = CONFIRMED, sb_escrowId = None, sb_meetingId = None,
                        sb_bucketId = bucket_id (bookings_bucket s1),
                        sb_objectKey = ''booking_'' @ bookingId @ ''.json''\<rparr>
                  in if \<not> m_add_ok n (sb_objectKey booking) then (Failed_to_book_service, s1)
                     else
                       let s2 = s1\<lparr>bookings_bucket :=
                                     bucket_add (sb_objectKey booking) booking (bookings_bucket s1),
                                   added := added s1 @ [AddBooking (sb_objectKey booking) booking]\<rparr>;
                           updated = serviceListing\<lparr>sl_status := BOOKED\<rparr>
                       in if \<not> m_add_ok n (sl_objectKey serviceListing)
                          then (Failed_to_book_service, s2)
                          else (Successfully_booked (mb_serviceId args) bookingId,
                                s2\<lparr>services_bucket :=
                                     bucket_add (sl_objectKey serviceListing) updated (services_bucket s2),
                                   added := added s2 @ [AddService (sl_objectKey serviceListing) updated]\<rparr>))"




text \<open>
  The loop of \<^verbatim>\<open>releaseFunds\<close> over the transactions bucket, taken when the escrow
  has no local file: the first object whose key contains the escrow id is read with
  \<^verbatim>\<open>JSON.parse(content.toString())\<close>. \<open>Inl\<close> when something throws.
\<close>

fun find_escrow_object :: "mod_env \<Rightarrow> string \<Rightarrow> (string \<times> ModeriaEscrow json) list \<Rightarrow> unit + ModeriaEscrow option" where
  "find_escrow_object n eid [] = Inr None"
| "find_escrow_object n eid ((k, c) # xs) =
     (if str_includes k eid then
        (if \<not> m_get_ok n k \<or> \<not> m_buffer n then Inl ()
         else case c of Malformed \<Rightarrow> Inl () | Json escrowData \<Rightarrow> Inr (Some escrowData))
      else find_escrow_object n eid xs)"

text \<open>
  The first half of \<^verbatim>\<open>releaseFunds\<close>: the escrow as the local file has it, copied
  from the bucket first when there is no file.
\<close>

definition escrowTxPath :: "moderia_state \<Rightarrow> string \<Rightarrow> string list" where
  "escrowTxPath s eid =
     path_join (path_join (moderia_storagePath s) ''transactions'') (eid @ ''.json'')"

definition load_escrow :: "mod_env \<Rightarrow> moderia_state \<Rightarrow> string \<Rightarrow> moderia_reply + (ModeriaEscrow \<times> moderia_state)" where
  "load_escrow n s eid =
     (case map_of (transactions_dir s) (escrowTxPath s eid) of
        Some escrowTx \<Rightarrow> Inr (escrowTx, s)
      | None \<Rightarrow>
          if \<not> agentClient s \<or> transactions_bucket s = None \<or> \<not> m_query_ok n
          then Inl Failed_to_release_funds
          else case find_escrow_object n eid (objects_of (transactions_bucket s)) of
            Inl _ \<Rightarrow> Inl Failed_to_release_funds
          | Inr None \<Rightarrow> Inl Moderia_ESCROW_NOT_FOUND
          | Inr (Some escrowData) \<Rightarrow>
              Inr (escrowData, s\<lparr>transactions_dir := AList.update (escrowTxPath s eid) escrowData (transactions_dir s)\<rparr>))"

definition releaseFunds ::
  "mod_env \<Rightarrow> moderia_state \<Rightarrow> ReleaseFundsArgs \<Rightarrow> moderia_reply \<times> moderia_state" where
  "releaseFunds n s args =
     (case (agentWallet s, teacherWallet s) of
        (Some agent, Some teacher) \<Rightarrow>
          (case load_escrow n s (rf_escrowId args) of
             Inl r \<Rightarrow> (r, s)
           | Inr (escrowTx, s1) \<Rightarrow>
               if me_status escrowTx \<noteq> PENDING then (Already_settled (me_status escrowTx), s1)
               else
                 (case m_parseUnits n (or_else (rf_amount args) (me_amount escrowTx)) of
                    None \<Rightarrow> (Failed_to_release_funds, s1)
                  | Some tokenAmount \<Rightarrow>
                      (case m_chain n of
                         Inl msg \<Rightarrow> (Failed_to_release_funds, s1)
                       | Inr txHash \<Rightarrow>
                           let s2 = s1\<lparr>sent := sent s1 @
                                   [\<lparr>tt_sender = agent, tt_recipient = me_providerAddress escrowTx,
                                     tt_token = USDC_TOKEN_ADDRESS, tt_units = tokenAmount\<rparr>]\<rparr>;
                               released = escrowTx\<lparr>me_status := RELEASED,
                                            me_completedAt := Some (m_iso n)\<rparr>;
                               k = ''escrow_'' @ me_id escrowTx @ ''.json''
                           in if \<not> agentClient s2 \<or> transactions_bucket s2 = None \<or> \<not> m_add_ok n k
                              then (Failed_to_release_funds, s2)
                              else
                                let s3 = s2\<lparr>transactions_bucket :=
                                              bucket_add k released (transactions_bucket s2),
                                            added := added s2 @ [AddEscrow k released]\<rparr>
                                in if \<not> m_add_again_ok n then (Failed_to_release_funds, s3)
                                   else (Successfully_released (rf_escrowId args)
                                           (or_else (rf_amount args) (me_amount escrowTx))
                                           (me_providerAddress escrowTx),
                                         s3\<lparr>added := added s3 @ [AddEscrow k released]\<rparr>))))
      | _ \<Rightarrow> (Moderia_WALLET_NOT_INITIALIZED, s))"

section \<open>The Otter AI action provider: payment authorization\<close>

text \<open>
  \<^verbatim>\<open>OtterAiActionProvider\<close> keeps meetings, analyses and payment authorizations in
  maps in memory. \<^verbatim>\<open>authorizePaymentBasedOnQuality\<close> reads the meeting and the
  analysis and writes an authorization; it moves no funds.
\<close>

datatype OtterMeetingStatus = Otter_JOINING | RECORDING | TRANSCRIBING | Otter_COMPLETED | Otter_FAILED



datatype payment_amount = Amount_text string | Amount_number real










section \<open>The providers side by side\<close>




subsection \<open>Example data for the escrow provider\<close>

definition demo_escrow :: EscrowTransaction where
  "demo_escrow = \<lparr>esc_id = ''escrow_1'', esc_clientAddress = ''0xclient'',
     esc_agentAddress = ''0xagent'', esc_providerAddress = ''0xprovider'',
     esc_tokenAddress = ''0xusdc'', esc_amount = ''100'', esc_serviceId = ''service_1'',
     esc_status = PENDING, esc_clientTxHash = Some ''0xaa'', esc_releaseTxHash = None,
     esc_createdAt = ''t0'', esc_updatedAt = ''t0'', esc_metadata = None\<rparr>"

text \<open>Outside demo mode; \<^verbatim>\<open>parseUnits("100", 6)\<close> is 100000000.\<close>

definition live_config :: escrow_config where
  "live_config = \<lparr>demoMode = False, walletKeys = True,
     storagePath = [''srv'', ''app'', ''temp_storage''], agentAccount = ''0xagent'',
     parseUnits = (\<lambda>a. if a = ''100'' then Some 100000000 else None)\<rparr>"

definition demo_store :: escrow_state where
  "demo_store = \<lparr>storage = [([''srv'', ''app'', ''temp_storage'', ''escrow_1.json''], EscrowRec demo_escrow)], transfers = []\<rparr>"

definition env_ok :: "string \<Rightarrow> call_env" where
  "env_ok h = \<lparr>now = ''t1'', chain = Inr h, simulated = ''0xsim''\<rparr>"

definition first_refund :: escrow_call where
  "first_refund = Refund (env_ok ''0xb1'') \<lparr>ref_escrowId = ''escrow_1'', ref_reason = Some ''late''\<rparr>"

definition later_calls :: "escrow_call list" where
  "later_calls =
     [Release (env_ok ''0xb2'') \<lparr>rel_escrowId = ''./escrow_1'', rel_reason = None\<rparr>,
      Refund (env_ok ''0xb3'') \<lparr>ref_escrowId = ''escrow_1'', ref_reason = None\<rparr>]"

definition partial_refund_args :: RefundEscrowInput where
  "partial_refund_args = \<lparr>ref_escrowId = ''escrow_1'', ref_reason = Some ''partial refund of 40 percent''\<rparr>"

subsection \<open>Example data for the marketplace provider\<close>

definition net_ok :: net where
  "net_ok = \<lparr>timestamp = ''1700000000000'', random = ''7'', iso = ''2023-11-14T22:13:20.000Z'',
     get_ok = (\<lambda>k. True), add_ok = (\<lambda>k. True), query_ok = (\<lambda>p. True)\<rparr>"

definition lesson :: serviceObject where
  "lesson = \<lparr>so_id = ''service_1'', so_provider = ''Alice'', so_title = ''French lesson'',
     so_description = ''One hour of French'', so_date = ''2023-12-01'', so_startTime = ''10:00'',
     so_endTime = ''11:00'', so_timeZone = ''UTC'', so_price = ''100'',
     so_status = SERVICE_AVAILABLE, so_createdAt = ''2023-11-01T00:00:00.000Z'',
     so_bookedBy = None, so_updatedAt = None\<rparr>"

definition lesson_booking :: bookingObject where
  "lesson_booking = \<lparr>bo_id = ''booking_1'', bo_serviceId = ''service_1'',
     bo_service = \<lparr>bs_title = ''French lesson'', bs_provider = ''Alice'', bs_date = ''2023-12-01'',
       bs_startTime = ''10:00'', bs_endTime = ''11:00'', bs_timeZone = ''UTC'', bs_price = ''100''\<rparr>,
     bo_clientName = ''Bob'', bo_clientEmail = ''bob@example.com'', bo_meetingPlatform = zoom,
     bo_meetingLink = ''https://zoom.example.com/meeting/booking_1'',
     bo_status = BOOKING_CONFIRMED, bo_meetingNotes = [], bo_createdAt = ''2023-11-02T00:00:00.000Z'',
     bo_completedAt = None, bo_successful = None, bo_comments = None,
     bo_disputeReason = None, bo_disputeEvidence = None, bo_disputeFiledAt = None,
     bo_disputeResolution = None, bo_disputeResolutionNotes = None,
     bo_refundAmount = None, bo_resolvedAt = None\<rparr>"


text \<open>A bucket with the lesson on offer, one where it is booked, one where the booking is disputed.\<close>

definition open_market :: market_state where
  "open_market = \<lparr>recallClient = True, mainBucket = Some ''0xbucket'',
     services = [(''service_1'', Json lesson)], bookings = [], disputes = [], journal = []\<rparr>"

definition booked_market :: market_state where
  "booked_market = \<lparr>recallClient = True, mainBucket = Some ''0xbucket'',
     services = [(''service_1'', Json (lesson\<lparr>so_status := SERVICE_BOOKED\<rparr>))],
     bookings = [(''booking_1'', Json lesson_booking)], disputes = [], journal = []\<rparr>"


text \<open>A listing with price 0 whose window ends before it starts.\<close>

definition free_backwards :: CreateServiceArgs where
  "free_backwards = \<lparr>cs_provider = ''Alice'', cs_title = ''French lesson'',
     cs_description = ''One hour of French'', cs_date = ''2023-12-01'', cs_startTime = ''11:00'',
     cs_endTime = ''10:00'', cs_timeZone = ''UTC'', cs_price = ''0''\<rparr>"

definition bob_books :: BookServiceArgs where
  "bob_books = \<lparr>bk_serviceId = ''service_1'', bk_clientName = ''Bob'',
     bk_clientEmail = ''bob@example.com'', bk_meetingPlatform = zoom\<rparr>"

definition bob_disputes :: FileDisputeArgs where
  "bob_disputes = \<lparr>fd_bookingId = ''booking_1'', fd_reason = ''no show'', fd_evidence = None\<rparr>"



subsection \<open>Example data for the moderia and Otter AI providers\<close>

definition mod_ok :: mod_env where
  "mod_ok = \<lparr>m_timestamp = ''1700000000000'', m_hex = ''ab12cd34'',
     m_iso = ''2023-11-14T22:13:20.000Z'', m_created = Some ''0xnew'', m_query_ok = True,
     m_get_ok = (\<lambda>k. True), m_add_ok = (\<lambda>k. True), m_add_again_ok = True,
     m_chain = Inr ''0xrelease'', m_buffer = True,
     m_parseUnits = (\<lambda>a. if a = ''100'' then Some 100000000
                          else if a = ''250'' then Some 250000000 else None)\<rparr>"

definition french_class :: ServiceListing where
  "french_class = \<lparr>sl_id = ''service_1_aa'', sl_serviceType = ''French class'',
     sl_providerName = ''Alice'', sl_startTime = ''2023-12-01T10:00:00Z'',
     sl_endTime = ''2023-12-01T11:00:00Z'', sl_price = ''100'', sl_walletAddress = ''0xteacher'',
     sl_meetingLink = ''https://meet.google.com/abc'', sl_description = None,
     sl_status = AVAILABLE, sl_createdAt = ''2023-11-01T00:00:00.000Z'',
     sl_bucketId = ''0xservices'', sl_objectKey = ''service_service_1_aa.json''\<rparr>"

definition class_escrow :: ModeriaEscrow where
  "class_escrow = \<lparr>me_id = ''escrow_1'', me_bookingId = ''booking_1'', me_amount = ''100'',
     me_providerAddress = ''0xteacher'', me_clientAddress = ''0xstudent'',
     me_agentAddress = ''0xagent'', me_status = PENDING,
     me_createdAt = ''2023-11-02T00:00:00.000Z'', me_completedAt = None,
     me_txHash = Some ''0xfund''\<rparr>"

text \<open>
  All clients and wallets set up, the class on offer, a funded escrow on file, and no
  meeting, transcript or analysis at all.
\<close>

definition classroom :: moderia_state where
  "classroom = \<lparr>teacherClient = True, studentClient = True, agentClient = True,
     teacherWallet = Some ''0xteacher'', studentWallet = Some ''0xstudent'',
     agentWallet = Some ''0xagent'',
     services_bucket = Some (''0xservices'', [(''service_service_1_aa.json'', Json french_class)]),
     bookings_bucket = None,
     transactions_bucket = Some (''0xtx'', [(''escrow_escrow_1.json'', Json class_escrow)]),
     moderia_storagePath = [''srv'', ''app'', ''moderia_data''],
     meetings_dir = [], transcripts_dir = [], analysis_dir = [],
     transactions_dir =
       [([''srv'', ''app'', ''moderia_data'', ''transactions'', ''escrow_1.json''], class_escrow)],
     sent = [], added = []\<rparr>"

text \<open>
  The same with no local copy of the escrow yet: the escrow is in the transactions
  bucket only, where \<^verbatim>\<open>createEscrow\<close> puts it.
\<close>

definition funded :: moderia_state where
  "funded = classroom\<lparr>transactions_dir := []\<rparr>"


definition carol_books :: ModeriaBookServiceArgs where
  "carol_books = \<lparr>mb_serviceId = ''service_1_aa'', mb_clientName = ''Carol'',
     mb_clientEmail = None, mb_specialRequests = None\<rparr>"









definition release_class :: ReleaseFundsArgs where
  "release_class = \<lparr>rf_escrowId = ''escrow_1'', rf_amount = None\<rparr>"








subsection \<open>Auxiliary definitions for the statements\<close>

text \<open>The service as \<open>bookService\<close> writes it back.\<close>

definition booked :: "serviceObject \<Rightarrow> string \<Rightarrow> string \<Rightarrow> serviceObject" where
  "booked service bookingId t =
     service\<lparr>so_status := SERVICE_BOOKED, so_bookedBy := Some bookingId, so_updatedAt := Some t\<rparr>"






text \<open>The dispute records that a query of \<open>resolveDispute\<close> can read.\<close>

definition readable_disputes :: "net \<Rightarrow> market_state \<Rightarrow> (string \<times> disputeObject json) list" where
  "readable_disputes n s = filter (\<lambda>(k, v). get_ok n (DISPUTES @ k)) (disputes s)"

section \<open>Properties\<close>

subsection \<open>ERC20 escrow provider: release and refund are terminal\<close>

lemma status_of_alias:
  "filePath c a = filePath c b \<Longrightarrow> status_of c s a = status_of c s b"
  by (simp add: status_of_def getTransaction_def)

lemma release_not_pending:
  "status_of c s (rel_escrowId a) \<noteq> Some PENDING \<Longrightarrow>
     isl (fst (releaseEscrow c env s a)) \<and> snd (releaseEscrow c env s a) = s"
  by (auto simp: releaseEscrow_def getEscrowDetails_def status_of_def
           split: option.splits stored.splits sum.splits)

lemma refund_not_pending:
  "status_of c s (ref_escrowId a) \<noteq> Some PENDING \<Longrightarrow>
     isl (fst (refundEscrow c env s a)) \<and> snd (refundEscrow c env s a) = s"
  by (auto simp: refundEscrow_def getEscrowDetails_def status_of_def
           split: option.splits stored.splits sum.splits)

lemma release_failed_unchanged:
  "isl (fst (releaseEscrow c env s a)) \<Longrightarrow> snd (releaseEscrow c env s a) = s"
  by (auto simp: releaseEscrow_def split: option.splits stored.splits sum.splits if_splits)

lemma refund_failed_unchanged:
  "isl (fst (refundEscrow c env s a)) \<Longrightarrow> snd (refundEscrow c env s a) = s"
  by (auto simp: refundEscrow_def split: option.splits stored.splits sum.splits if_splits)

lemma release_effect:
  assumes "\<not> isl (fst (releaseEscrow c env s a))"
  shows "status_of c s (rel_escrowId a) = Some PENDING
       \<and> status_of c (snd (releaseEscrow c env s a)) (rel_escrowId a) = Some RELEASED
       \<and> length (transfers (snd (releaseEscrow c env s a))) \<le> length (transfers s) + 1"
  using assms
  by (auto simp: releaseEscrow_def getEscrowDetails_def status_of_def getTransaction_def
         storeTransaction_def update_conv' agent_transfer_def
           split: option.splits stored.splits sum.splits if_splits)

lemma refund_effect:
  assumes "\<not> isl (fst (refundEscrow c env s a))"
  shows "status_of c s (ref_escrowId a) = Some PENDING
       \<and> status_of c (snd (refundEscrow c env s a)) (ref_escrowId a) = Some REFUNDED
       \<and> length (transfers (snd (refundEscrow c env s a))) \<le> length (transfers s) + 1"
  using assms
  by (auto simp: refundEscrow_def getEscrowDetails_def status_of_def getTransaction_def
         storeTransaction_def update_conv' agent_transfer_def
           split: option.splits stored.splits sum.splits if_splits)

lemma step_not_pending:
  "status_of c s (target x) \<noteq> Some PENDING \<Longrightarrow>
     isl (fst (escrow_step c s x)) \<and> snd (escrow_step c s x) = s"
  by (cases x) (simp_all add: release_not_pending refund_not_pending)

lemma step_failed_unchanged:
  "isl (fst (escrow_step c s x)) \<Longrightarrow> snd (escrow_step c s x) = s"
  by (cases x) (simp_all add: release_failed_unchanged refund_failed_unchanged)

lemma step_effect:
  "\<not> isl (fst (escrow_step c s x)) \<Longrightarrow>
     status_of c s (target x) = Some PENDING
   \<and> status_of c (snd (escrow_step c s x)) (target x) = Some (terminal_of x)
   \<and> length (transfers (snd (escrow_step c s x))) \<le> length (transfers s) + 1"
  by (cases x) (auto dest: release_effect refund_effect)

lemma run_not_pending:
  "status_of c s k \<noteq> Some PENDING \<Longrightarrow>
   \<forall>y\<in>set cs. filePath c (target y) = filePath c k \<Longrightarrow>
     (\<forall>r\<in>set (fst (escrow_run c s cs)). isl r) \<and> snd (escrow_run c s cs) = s"
proof (induction cs)
  case Nil
  then show ?case by simp
next
  case (Cons x xs)
  from Cons.prems have "filePath c (target x) = filePath c k" by simp
  from status_of_alias[OF this, of s] Cons.prems(1)
  have nx: "status_of c s (target x) \<noteq> Some PENDING" by simp
  from step_not_pending[OF nx]
  have st: "isl (fst (escrow_step c s x))" "snd (escrow_step c s x) = s" by simp_all
  from Cons.IH Cons.prems
  have ih: "(\<forall>r\<in>set (fst (escrow_run c s xs)). isl r) \<and> snd (escrow_run c s xs) = s" by simp
  show ?case using st ih
    by (auto split: prod.splits)
qed

lemma run_all_failed:
  "\<forall>r\<in>set (fst (escrow_run c s cs)). isl r \<Longrightarrow> snd (escrow_run c s cs) = s"
proof (induction cs arbitrary: s)
  case Nil
  then show ?case by simp
next
  case (Cons x xs)
  obtain r s1 where st: "escrow_step c s x = (r, s1)" by (cases "escrow_step c s x")
  obtain rs s2 where rn: "escrow_run c s1 xs = (rs, s2)" by (cases "escrow_run c s1 xs")
  from Cons.prems st rn have "isl r" "\<forall>r\<in>set rs. isl r" by simp_all
  with step_failed_unchanged[of c s x] st have "s1 = s" by simp
  with Cons.IH[of s1] rn \<open>\<forall>r\<in>set rs. isl r\<close> st show ?case by simp
qed

lemma run_success_terminal:
  "\<forall>y\<in>set cs. filePath c (target y) = filePath c k \<Longrightarrow>
   \<exists>r\<in>set (fst (escrow_run c s cs)). \<not> isl r \<Longrightarrow>
     status_of c (snd (escrow_run c s cs)) k \<noteq> Some PENDING"
proof (induction cs arbitrary: s)
  case Nil
  then show ?case by simp
next
  case (Cons x xs)
  obtain r s1 where st: "escrow_step c s x = (r, s1)" by (cases "escrow_step c s x")
  obtain rs s2 where rn: "escrow_run c s1 xs = (rs, s2)" by (cases "escrow_run c s1 xs")
  from Cons.prems have tx: "filePath c (target x) = filePath c k"
    and txs: "\<forall>y\<in>set xs. filePath c (target y) = filePath c k" by simp_all
  show ?case
  proof (cases "isl r")
    case True
    with step_failed_unchanged[of c s x] st have "s1 = s" by simp
    moreover from Cons.prems(2) st rn True have "\<exists>r\<in>set rs. \<not> isl r" by auto
    ultimately show ?thesis using Cons.IH[OF txs, of s] st rn by simp
  next
    case False
    with step_effect[of c s x] st status_of_alias[OF tx, of s1]
    have "status_of c s1 k = Some (terminal_of x)" by simp
    then have np: "status_of c s1 k \<noteq> Some PENDING" by (cases x) simp_all
    from run_not_pending[OF np txs] rn have "s2 = s1" by simp
    with np st rn show ?thesis by simp
  qed
qed

lemma run_at_most_one:
  "\<forall>y\<in>set cs. filePath c (target y) = filePath c k \<Longrightarrow>
     length (filter (\<lambda>r. \<not> isl r) (fst (escrow_run c s cs))) \<le> 1
   \<and> length (transfers (snd (escrow_run c s cs))) \<le> length (transfers s) + 1"
proof (induction cs arbitrary: s)
  case Nil
  then show ?case by simp
next
  case (Cons x xs)
  obtain r s1 where st: "escrow_step c s x = (r, s1)" by (cases "escrow_step c s x")
  obtain rs s2 where rn: "escrow_run c s1 xs = (rs, s2)" by (cases "escrow_run c s1 xs")
  from Cons.prems have tx: "filePath c (target x) = filePath c k"
    and txs: "\<forall>y\<in>set xs. filePath c (target y) = filePath c k" by simp_all
  show ?case
  proof (cases "isl r")
    case True
    with step_failed_unchanged[of c s x] st have "s1 = s" by simp
    with Cons.IH[OF txs, of s] st rn True show ?thesis by simp
  next
    case False
    with step_effect[of c s x] st status_of_alias[OF tx, of s1]
    have eff: "status_of c s1 k = Some (terminal_of x)"
      "length (transfers s1) \<le> length (transfers s) + 1" by simp_all
    from eff(1) have np: "status_of c s1 k \<noteq> Some PENDING" by (cases x) simp_all
    from run_not_pending[OF np txs] rn
    have "\<forall>r\<in>set rs. isl r" "s2 = s1" by simp_all
    then have "filter (\<lambda>r. \<not> isl r) rs = []" by (simp add: filter_empty_conv)
    with \<open>s2 = s1\<close> eff(2) st rn False show ?thesis by simp
  qed
qed

text \<open>
  In the ERC20 escrow provider release and refund act only on a pending escrow.
  Take any sequence \<open>cs\<close> of release and refund calls, made one after the other,
  whose ids all name the file of the escrow \<open>k\<close>: at most one call succeeds and at
  most one transfer is made. Wherever the sequence is cut as \<open>pre @ x # post\<close>: the
  call \<open>x\<close> is an error when the escrow is not pending, an error leaves the whole
  state as it was, and when \<open>x\<close> succeeds the escrow was pending, nothing before it
  had any effect, the status becomes Released for a release and Refunded for a
  refund, and every later call is an error that leaves the state, and so the stored
  record, unchanged.
\<close>

lemma erc20_escrow_terminal:
  assumes tg: "\<forall>y\<in>set cs. filePath c (target y) = filePath c k"
  shows "length (filter (\<lambda>r. \<not> isl r) (fst (escrow_run c s cs))) \<le> 1
       \<and> length (transfers (snd (escrow_run c s cs))) \<le> length (transfers s) + 1
       \<and> (\<forall>pre x post. cs = pre @ x # post \<longrightarrow>
            (let s0 = snd (escrow_run c s pre);
                 r = fst (escrow_step c s0 x);
                 s1 = snd (escrow_step c s0 x)
             in (status_of c s0 k \<noteq> Some PENDING \<longrightarrow> isl r)
              \<and> (isl r \<longrightarrow> s1 = s0)
              \<and> (\<not> isl r \<longrightarrow>
                    status_of c s0 k = Some PENDING
                  \<and> s0 = s \<and> (\<forall>r'\<in>set (fst (escrow_run c s pre)). isl r')
                  \<and> status_of c s1 k = Some (terminal_of x)
                  \<and> length (transfers s1) \<le> length (transfers s0) + 1
                  \<and> (\<forall>r'\<in>set (fst (escrow_run c s1 post)). isl r')
                  \<and> snd (escrow_run c s1 post) = s1)))"
proof -
  have split: "(let s0 = snd (escrow_run c s pre);
                 r = fst (escrow_step c s0 x);
                 s1 = snd (escrow_step c s0 x)
             in (status_of c s0 k \<noteq> Some PENDING \<longrightarrow> isl r)
              \<and> (isl r \<longrightarrow> s1 = s0)
              \<and> (\<not> isl r \<longrightarrow>
                    status_of c s0 k = Some PENDING
                  \<and> s0 = s \<and> (\<forall>r'\<in>set (fst (escrow_run c s pre)). isl r')
                  \<and> status_of c s1 k = Some (terminal_of x)
                  \<and> length (transfers s1) \<le> length (transfers s0) + 1
                  \<and> (\<forall>r'\<in>set (fst (escrow_run c s1 post)). isl r')
                  \<and> snd (escrow_run c s1 post) = s1))"
    if cs: "cs = pre @ x # post" for pre x post
  proof -
    define s0 where "s0 = snd (escrow_run c s pre)"
    define r where "r = fst (escrow_step c s0 x)"
    define s1 where "s1 = snd (escrow_step c s0 x)"
    from tg cs have tpre: "\<forall>y\<in>set pre. filePath c (target y) = filePath c k"
      and tx: "filePath c (target x) = filePath c k"
      and tpost: "\<forall>y\<in>set post. filePath c (target y) = filePath c k" by simp_all
    have a: "status_of c s0 k \<noteq> Some PENDING \<longrightarrow> isl r"
      using step_not_pending[of c s0 x] status_of_alias[OF tx, of s0] by (simp add: r_def)
    have b: "isl r \<longrightarrow> s1 = s0"
      using step_failed_unchanged[of c s0 x] by (simp add: r_def s1_def)
    have d: "status_of c s0 k = Some PENDING
                  \<and> s0 = s \<and> (\<forall>r'\<in>set (fst (escrow_run c s pre)). isl r')
                  \<and> status_of c s1 k = Some (terminal_of x)
                  \<and> length (transfers s1) \<le> length (transfers s0) + 1
                  \<and> (\<forall>r'\<in>set (fst (escrow_run c s1 post)). isl r')
                  \<and> snd (escrow_run c s1 post) = s1" if ok: "\<not> isl r"
    proof -
      from step_effect[of c s0 x] ok status_of_alias[OF tx, of s0] status_of_alias[OF tx, of s1]
      have eff: "status_of c s0 k = Some PENDING" "status_of c s1 k = Some (terminal_of x)"
        "length (transfers s1) \<le> length (transfers s0) + 1"
        by (simp_all add: r_def s1_def)
      from run_success_terminal[OF tpre, of s] eff(1)
      have allf: "\<forall>r'\<in>set (fst (escrow_run c s pre)). isl r'" by (auto simp: s0_def)
      from run_all_failed[OF allf] have "s0 = s" by (simp add: s0_def)
      from eff(2) have np: "status_of c s1 k \<noteq> Some PENDING" by (cases x) simp_all
      from run_not_pending[OF np tpost] eff allf \<open>s0 = s\<close>
      show ?thesis by simp
    qed
    from a b d show ?thesis
      unfolding Let_def s0_def[symmetric] r_def[symmetric] s1_def[symmetric] by blast
  qed
  from run_at_most_one[OF tg, of s] split show ?thesis by blast
qed

text \<open>
  A refund of a pending escrow, then a release under another spelling of its id and
  a second refund: the first succeeds, the two later calls are errors, and one
  transfer is made in all.
\<close>

lemma erc20_escrow_terminal_example:
  "map (filePath live_config \<circ> target) (first_refund # later_calls)
     = replicate 3 (filePath live_config ''escrow_1'')
   \<and> \<not> isl (fst (escrow_step live_config demo_store first_refund))
   \<and> status_of live_config demo_store ''escrow_1'' = Some PENDING
   \<and> status_of live_config (snd (escrow_step live_config demo_store first_refund)) ''escrow_1''
       = Some REFUNDED
   \<and> list_all isl (fst (escrow_run live_config
          (snd (escrow_step live_config demo_store first_refund)) later_calls))
   \<and> snd (escrow_run live_config (snd (escrow_step live_config demo_store first_refund)) later_calls)
       = snd (escrow_step live_config demo_store first_refund)
   \<and> length (transfers (snd (escrow_run live_config demo_store (first_refund # later_calls)))) \<le> 1"
proof -
  have tgs: "map (filePath live_config \<circ> target) (first_refund # later_calls)
     = replicate 3 (filePath live_config ''escrow_1'')"
    by (simp add: first_refund_def later_calls_def filePath_def path_join_def live_config_def
          numeral_3_eq_3)
  then have h: "\<forall>y\<in>set (first_refund # later_calls).
      filePath live_config (target y) = filePath live_config ''escrow_1''"
    by (simp add: first_refund_def later_calls_def numeral_3_eq_3)
  have ok: "\<not> isl (fst (escrow_step live_config demo_store first_refund))"
    by (simp add: first_refund_def demo_store_def live_config_def demo_escrow_def env_ok_def
          refundEscrow_def getEscrowDetails_def getTransaction_def initClients_def
          agent_transfer_def filePath_def path_join_def)
  have tr: "transfers demo_store = []"
    by (simp add: demo_store_def)
  from erc20_escrow_terminal[OF h, of demo_store]
  have cut: "let s0 = snd (escrow_run live_config demo_store []);
                 r = fst (escrow_step live_config s0 first_refund);
                 s1 = snd (escrow_step live_config s0 first_refund)
             in (status_of live_config s0 ''escrow_1'' \<noteq> Some PENDING \<longrightarrow> isl r)
              \<and> (isl r \<longrightarrow> s1 = s0)
              \<and> (\<not> isl r \<longrightarrow>
                    status_of live_config s0 ''escrow_1'' = Some PENDING
                  \<and> s0 = demo_store
                  \<and> (\<forall>r'\<in>set (fst (escrow_run live_config demo_store [])). isl r')
                  \<and> status_of live_config s1 ''escrow_1'' = Some (terminal_of first_refund)
                  \<and> length (transfers s1) \<le> length (transfers s0) + 1
                  \<and> (\<forall>r'\<in>set (fst (escrow_run live_config s1 later_calls)). isl r')
                  \<and> snd (escrow_run live_config s1 later_calls) = s1)"
    and tot: "length (transfers (snd (escrow_run live_config demo_store (first_refund # later_calls))))
                \<le> length (transfers demo_store) + 1"
    by blast+
  have tm: "terminal_of first_refund = REFUNDED"
    by (simp add: first_refund_def)
  from cut ok tm have
    "status_of live_config demo_store ''escrow_1'' = Some PENDING
     \<and> status_of live_config (snd (escrow_step live_config demo_store first_refund)) ''escrow_1''
         = Some REFUNDED
     \<and> list_all isl (fst (escrow_run live_config
          (snd (escrow_step live_config demo_store first_refund)) later_calls))
     \<and> snd (escrow_run live_config (snd (escrow_step live_config demo_store first_refund)) later_calls)
       = snd (escrow_step live_config demo_store first_refund)"
    by (simp add: Let_def list_all_iff)
  with tgs ok tot tr show ?thesis by simp
qed

subsection \<open>Moderia: a release can be repeated\<close>

lemma load_escrow_local:
  "map_of (transactions_dir s) (escrowTxPath s eid) = Some escrowTx
     \<Longrightarrow> load_escrow n s eid = Inr (escrowTx, s)"
  by (simp add: load_escrow_def)

lemma load_escrow_copy:
  "load_escrow n s eid = Inr (escrowTx, s1)
     \<Longrightarrow> map_of (transactions_dir s1) (escrowTxPath s eid) = Some escrowTx
       \<and> s1 = s\<lparr>transactions_dir := transactions_dir s1\<rparr>"
  by (auto simp: load_escrow_def update_conv' split: option.splits sum.splits if_splits)

lemma releaseFunds_after_load:
  assumes "agentWallet s = Some agent" "teacherWallet s = Some teacher"
    and "load_escrow n s (rf_escrowId args) = Inr (escrowTx, s1)"
    and "me_status escrowTx = PENDING"
    and "m_parseUnits n (or_else (rf_amount args) (me_amount escrowTx)) = Some units"
    and "m_chain n = Inr hash"
    and "agentClient s" "transactions_bucket s = Some b"
    and "m_add_ok n (''escrow_'' @ me_id escrowTx @ ''.json'')" "m_add_again_ok n"
  shows "releaseFunds n s args =
      (Successfully_released (rf_escrowId args) (or_else (rf_amount args) (me_amount escrowTx))
         (me_providerAddress escrowTx),
       s\<lparr>transactions_dir := transactions_dir s1,
         sent := sent s @ [\<lparr>tt_sender = agent, tt_recipient = me_providerAddress escrowTx,
                   tt_token = USDC_TOKEN_ADDRESS, tt_units = units\<rparr>],
         transactions_bucket := bucket_add (''escrow_'' @ me_id escrowTx @ ''.json'')
             (escrowTx\<lparr>me_status := RELEASED, me_completedAt := Some (m_iso n)\<rparr>)
             (transactions_bucket s),
         added := added s @
           [AddEscrow (''escrow_'' @ me_id escrowTx @ ''.json'')
              (escrowTx\<lparr>me_status := RELEASED, me_completedAt := Some (m_iso n)\<rparr>),
            AddEscrow (''escrow_'' @ me_id escrowTx @ ''.json'')
              (escrowTx\<lparr>me_status := RELEASED, me_completedAt := Some (m_iso n)\<rparr>)]\<rparr>)"
proof -
  from load_escrow_copy[OF assms(3)]
  have s1: "s1 = s\<lparr>transactions_dir := transactions_dir s1\<rparr>" by simp
  obtain bid objs where b: "b = (bid, objs)" by (cases b)
  have flds: "sent s1 = sent s" "added s1 = added s" "agentClient s1 = agentClient s"
    "transactions_bucket s1 = transactions_bucket s"
    by (subst s1, simp)+
  show ?thesis
    using assms flds b
    by (simp add: releaseFunds_def Let_def) (subst s1, simp)
qed

text \<open>
  Claim C1. The ERC20 escrow provider keeps to the claim, as shown above for calls
  made one after the other; the release of the moderia provider does not.
  \<open>releaseFunds\<close> tests the status that the local copy of the escrow has, and after
  the transfer it sets the status Released only in the record in memory and in the
  copy in the transactions bucket: the local copy stays pending. So, with both
  wallets set up, a pending escrow that the call can read, an amount that parses, a
  chain that accepts the transfer and a bucket that takes the update, the release
  succeeds and transfers, the local copy is still the pending record, and a second
  release of the same escrow under the same conditions succeeds and transfers again.
\<close>

theorem releaseFunds_repeats:
  assumes "agentWallet s = Some agent" and "teacherWallet s = Some teacher"
    and "load_escrow n s (rf_escrowId args) = Inr (escrowTx, s1)"
    and "me_status escrowTx = PENDING"
    and "agentClient s" and "transactions_bucket s = Some b"
    and "m_parseUnits n (or_else (rf_amount args) (me_amount escrowTx)) = Some units"
    and "m_chain n = Inr hash"
    and "m_add_ok n (''escrow_'' @ me_id escrowTx @ ''.json'')" and "m_add_again_ok n"
    and "m_parseUnits n' (or_else (rf_amount args) (me_amount escrowTx)) = Some units'"
    and "m_chain n' = Inr hash'"
    and "m_add_ok n' (''escrow_'' @ me_id escrowTx @ ''.json'')" and "m_add_again_ok n'"
  shows "fst (releaseFunds n s args)
           = Successfully_released (rf_escrowId args)
               (or_else (rf_amount args) (me_amount escrowTx)) (me_providerAddress escrowTx)
       \<and> sent (snd (releaseFunds n s args)) = sent s @
           [\<lparr>tt_sender = agent, tt_recipient = me_providerAddress escrowTx,
             tt_token = USDC_TOKEN_ADDRESS, tt_units = units\<rparr>]
       \<and> map_of (transactions_dir (snd (releaseFunds n s args)))
             (escrowTxPath s (rf_escrowId args)) = Some escrowTx
       \<and> fst (releaseFunds n' (snd (releaseFunds n s args)) args)
           = Successfully_released (rf_escrowId args)
               (or_else (rf_amount args) (me_amount escrowTx)) (me_providerAddress escrowTx)
       \<and> sent (snd (releaseFunds n' (snd (releaseFunds n s args)) args)) = sent s @
           [\<lparr>tt_sender = agent, tt_recipient = me_providerAddress escrowTx,
             tt_token = USDC_TOKEN_ADDRESS, tt_units = units\<rparr>,
            \<lparr>tt_sender = agent, tt_recipient = me_providerAddress escrowTx,
             tt_token = USDC_TOKEN_ADDRESS, tt_units = units'\<rparr>]
       \<and> map_of (transactions_dir (snd (releaseFunds n' (snd (releaseFunds n s args)) args)))
             (escrowTxPath s (rf_escrowId args)) = Some escrowTx"
proof -
  define t where "t = snd (releaseFunds n s args)"
  obtain bid objs where b: "b = (bid, objs)" by (cases b)
  note first = releaseFunds_after_load[OF assms(1,2,3,4,7,8,5,6,9,10)]
  from load_escrow_copy[OF assms(3)]
  have copy: "map_of (transactions_dir s1) (escrowTxPath s (rf_escrowId args)) = Some escrowTx"
    by simp
  have t_flds: "agentWallet t = Some agent" "teacherWallet t = Some teacher"
    "agentClient t" "transactions_bucket t \<noteq> None"
    "transactions_dir t = transactions_dir s1"
    "escrowTxPath t (rf_escrowId args) = escrowTxPath s (rf_escrowId args)"
    "sent t = sent s @ [\<lparr>tt_sender = agent, tt_recipient = me_providerAddress escrowTx,
             tt_token = USDC_TOKEN_ADDRESS, tt_units = units\<rparr>]"
    using assms(1,2,5,6) b by (simp_all add: t_def first escrowTxPath_def)
  from t_flds(4) obtain b' where tb: "transactions_bucket t = Some b'" by auto
  from copy t_flds(5,6)
  have "map_of (transactions_dir t) (escrowTxPath t (rf_escrowId args)) = Some escrowTx"
    by simp
  from load_escrow_local[OF this]
  have load2: "load_escrow n' t (rf_escrowId args) = Inr (escrowTx, t)" .
  note second = releaseFunds_after_load[OF t_flds(1,2) load2 assms(4,11,12) t_flds(3) tb assms(13,14)]
  have c1: "fst (releaseFunds n s args)
           = Successfully_released (rf_escrowId args)
               (or_else (rf_amount args) (me_amount escrowTx)) (me_providerAddress escrowTx)"
    by (simp add: first)
  have c3: "map_of (transactions_dir t) (escrowTxPath s (rf_escrowId args)) = Some escrowTx"
    using copy t_flds(5) by simp
  have c4: "fst (releaseFunds n' t args)
           = Successfully_released (rf_escrowId args)
               (or_else (rf_amount args) (me_amount escrowTx)) (me_providerAddress escrowTx)"
    by (simp add: second)
  have c5: "sent (snd (releaseFunds n' t args)) = sent t @
           [\<lparr>tt_sender = agent, tt_recipient = me_providerAddress escrowTx,
             tt_token = USDC_TOKEN_ADDRESS, tt_units = units'\<rparr>]"
    by (simp add: second)
  have c6: "transactions_dir (snd (releaseFunds n' t args)) = transactions_dir t"
    by (simp add: second)
  show ?thesis
    unfolding t_def[symmetric]
    using c1 c3 c4 c5 c6 t_flds(7) by simp
qed

text \<open>
  An escrow of 100 USDC that is in the transactions bucket only, where
  \<^verbatim>\<open>createEscrow\<close> puts it, released twice: each call
  answers with success and sends 100000000 units to the provider, and the local copy
  that the first call wrote is pending after both.
\<close>

theorem releaseFunds_repeats_witness:
  "agentWallet funded = Some ''0xagent'' \<and> teacherWallet funded = Some ''0xteacher''
   \<and> transactions_dir funded = []
   \<and> map (me_status \<circ> snd) (transactions_dir (snd (releaseFunds mod_ok funded release_class)))
       = [PENDING]
   \<and> fst (releaseFunds mod_ok funded release_class)
       = Successfully_released ''escrow_1'' ''100'' ''0xteacher''
   \<and> fst (releaseFunds mod_ok (snd (releaseFunds mod_ok funded release_class)) release_class)
       = Successfully_released ''escrow_1'' ''100'' ''0xteacher''
   \<and> sent (snd (releaseFunds mod_ok (snd (releaseFunds mod_ok funded release_class)) release_class))
       = [\<lparr>tt_sender = ''0xagent'', tt_recipient = ''0xteacher'',
           tt_token = USDC_TOKEN_ADDRESS, tt_units = 100000000\<rparr>,
          \<lparr>tt_sender = ''0xagent'', tt_recipient = ''0xteacher'',
           tt_token = USDC_TOKEN_ADDRESS, tt_units = 100000000\<rparr>]"
proof -
  have ld: "load_escrow mod_ok funded (rf_escrowId release_class)
      = Inr (class_escrow, funded\<lparr>transactions_dir :=
          [([''srv'', ''app'', ''moderia_data'', ''transactions'', ''escrow_1.json''], class_escrow)]\<rparr>)"
    by (simp add: load_escrow_def funded_def classroom_def mod_ok_def release_class_def
          escrowTxPath_def path_join_def str_includes_def sublist_Cons_right prefix_Cons)
  have h: "agentWallet funded = Some ''0xagent''" "teacherWallet funded = Some ''0xteacher''"
    "me_status class_escrow = PENDING" "agentClient funded"
    "transactions_bucket funded = Some (''0xtx'', [(''escrow_escrow_1.json'', Json class_escrow)])"
    "m_parseUnits mod_ok (or_else (rf_amount release_class) (me_amount class_escrow))
       = Some 100000000"
    "m_chain mod_ok = Inr ''0xrelease''"
    "m_add_ok mod_ok (''escrow_'' @ me_id class_escrow @ ''.json'')" "m_add_again_ok mod_ok"
    by (simp_all add: funded_def classroom_def class_escrow_def mod_ok_def release_class_def)
  have e: "transactions_dir funded = []" "sent funded = []"
    "rf_escrowId release_class = ''escrow_1''"
    "or_else (rf_amount release_class) (me_amount class_escrow) = ''100''"
    "me_providerAddress class_escrow = ''0xteacher''"
    by (simp_all add: funded_def classroom_def class_escrow_def release_class_def)
  have dir: "map (me_status \<circ> snd) (transactions_dir (snd (releaseFunds mod_ok funded release_class)))
       = [PENDING]"
    by (simp add: releaseFunds_def load_escrow_def Let_def funded_def classroom_def
          class_escrow_def mod_ok_def release_class_def escrowTxPath_def path_join_def
          str_includes_def sublist_Cons_right prefix_Cons)
  from releaseFunds_repeats[OF h(1,2) ld h(3,4,5,6,7,8,9) h(6,7,8,9)] h(1,2) e dir
  show ?thesis by simp
qed

subsection \<open>Escrow: what a refund transfers\<close>


text \<open>
  Claim C3, as amended. \<open>refundEscrow\<close> takes an escrow id and a reason, no
  percentage. On a pending escrow, outside demo mode, it succeeds exactly when the
  amount parses and the chain accepts the transfer, and then it has sent the whole
  escrow amount from the agent to the client address and stored the status Refunded;
  otherwise it is an error and the state is unchanged. In demo mode it stores the
  status Refunded and makes no transfer.
\<close>

theorem refund_full_amount:
  assumes rec: "getTransaction c s (ref_escrowId a) = Some (EscrowRec e)"
    and pend: "esc_status e = PENDING"
    and init: "initClients c"
  shows "if demoMode c then
           \<not> isl (fst (refundEscrow c env s a))
         \<and> status_of c (snd (refundEscrow c env s a)) (ref_escrowId a) = Some REFUNDED
         \<and> transfers (snd (refundEscrow c env s a)) = transfers s
         else (case (parseUnits c (esc_amount e), chain env) of
                 (Some units, Inr hash) \<Rightarrow>
                     \<not> isl (fst (refundEscrow c env s a))
                   \<and> status_of c (snd (refundEscrow c env s a)) (ref_escrowId a) = Some REFUNDED
                   \<and> transfers (snd (refundEscrow c env s a)) = transfers s @
                        [\<lparr>tt_sender = agentAccount c, tt_recipient = esc_clientAddress e,
                          tt_token = esc_tokenAddress e, tt_units = units\<rparr>]
               | _ \<Rightarrow> isl (fst (refundEscrow c env s a)) \<and> snd (refundEscrow c env s a) = s)"
  using rec pend init
  by (auto simp: refundEscrow_def getEscrowDetails_def agent_transfer_def status_of_def
        getTransaction_def storeTransaction_def update_conv'
      split: option.splits sum.splits)

text \<open>
  The claim as stated fails: a refund meant as 40 percent of a pending escrow of 100
  USDC transfers all 100000000 units, where the specification asks for 40000000.
\<close>

theorem refund_pct_counterexample:
  "map tt_units (transfers (snd (refundEscrow live_config (env_ok ''0xb1'') demo_store partial_refund_args)))
     = [100000000]
   \<and> spec_refund_units live_config demo_escrow 40 = Some 40000000
   \<and> map (Some \<circ> tt_units)
        (transfers (snd (refundEscrow live_config (env_ok ''0xb1'') demo_store partial_refund_args)))
       \<noteq> [spec_refund_units live_config demo_escrow 40]
   \<and> status_of live_config demo_store ''escrow_1'' = Some PENDING"
  by (simp add: refundEscrow_def getEscrowDetails_def agent_transfer_def status_of_def
        getTransaction_def storeTransaction_def initClients_def spec_refund_units_def
        filePath_def path_join_def live_config_def demo_store_def demo_escrow_def env_ok_def partial_refund_args_def)

theorem refund_full_amount_witness:
  "getTransaction live_config demo_store (ref_escrowId partial_refund_args) = Some (EscrowRec demo_escrow)
   \<and> esc_status demo_escrow = PENDING
   \<and> initClients live_config
   \<and> \<not> isl (fst (refundEscrow live_config (env_ok ''0xb1'') demo_store partial_refund_args))
   \<and> status_of live_config (snd (refundEscrow live_config (env_ok ''0xb1'') demo_store partial_refund_args))
        ''escrow_1'' = Some REFUNDED
   \<and> transfers (snd (refundEscrow live_config (env_ok ''0xb1'') demo_store partial_refund_args))
       = [\<lparr>tt_sender = ''0xagent'', tt_recipient = ''0xclient'', tt_token = ''0xusdc'',
           tt_units = 100000000\<rparr>]"
proof -
  have h1: "getTransaction live_config demo_store (ref_escrowId partial_refund_args) = Some (EscrowRec demo_escrow)"
    by (simp add: getTransaction_def demo_store_def partial_refund_args_def filePath_def
          path_join_def live_config_def)
  have h2: "esc_status demo_escrow = PENDING"
    by (simp add: demo_escrow_def)
  have h3: "initClients live_config"
    by (simp add: initClients_def live_config_def)
  have cfg: "\<not> demoMode live_config" "agentAccount live_config = ''0xagent''"
    "parseUnits live_config (esc_amount demo_escrow) = Some 100000000"
    by (simp_all add: live_config_def demo_escrow_def)
  have ev: "chain (env_ok ''0xb1'') = Inr ''0xb1''"
    by (simp add: env_ok_def)
  have flds: "esc_clientAddress demo_escrow = ''0xclient''" "esc_tokenAddress demo_escrow = ''0xusdc''"
    "ref_escrowId partial_refund_args = ''escrow_1''" "transfers demo_store = []"
    by (simp_all add: demo_escrow_def partial_refund_args_def demo_store_def)
  from refund_full_amount[OF h1 h2 h3, of "env_ok ''0xb1''"] cfg ev flds h1 h2 h3
  show ?thesis by simp
qed

subsection \<open>Marketplace: facts about the bucket\<close>

lemma isInitialized_apply_write:
  "isInitialized ((apply_write s w)\<lparr>journal := j\<rparr>) = isInitialized s"
  by (cases w) (simp_all add: isInitialized_def)

lemma storeObject_unchanged:
  "fst (storeObject n s w) = False \<Longrightarrow> snd (storeObject n s w) = s"
  by (simp add: storeObject_def split: if_splits)

subsection \<open>Marketplace: creating a service\<close>

lemma createService_stores:
  assumes init: "isInitialized s"
    and add: "add_ok n (SERVICES @ ''service_'' @ timestamp n @ ''_'' @ random n)"
  shows "fst (createService n s args) = Service_created (''service_'' @ timestamp n @ ''_'' @ random n)
       \<and> (\<exists>service.
             map_of (services (snd (createService n s args)))
               (''service_'' @ timestamp n @ ''_'' @ random n) = Some (Json service)
           \<and> so_status service = SERVICE_AVAILABLE
           \<and> so_price service = cs_price args
           \<and> so_startTime service = cs_startTime args
           \<and> so_endTime service = cs_endTime args
           \<and> so_date service = cs_date args
           \<and> so_provider service = cs_provider args
           \<and> so_title service = cs_title args)"
  using init add
  by (simp add: createService_def storeObject_def Let_def update_conv')

text \<open>
  Claim C6, as amended. \<open>createService\<close> checks neither the price nor the window:
  for every input, once the client is initialised and the bucket accepts the write,
  it answers with the new service id and has stored the service with the price and
  the times as given and the status Available.
\<close>

theorem createService_no_validation:
  assumes init: "isInitialized s"
    and add: "add_ok n (SERVICES @ ''service_'' @ timestamp n @ ''_'' @ random n)"
  shows "fst (createService n s args) = Service_created (''service_'' @ timestamp n @ ''_'' @ random n)
       \<and> (\<exists>service.
             map_of (services (snd (createService n s args)))
               (''service_'' @ timestamp n @ ''_'' @ random n) = Some (Json service)
           \<and> so_status service = SERVICE_AVAILABLE
           \<and> so_price service = cs_price args
           \<and> so_startTime service = cs_startTime args
           \<and> so_endTime service = cs_endTime args
           \<and> so_date service = cs_date args
           \<and> so_provider service = cs_provider args
           \<and> so_title service = cs_title args)"
  using init add by (rule createService_stores)

text \<open>
  The claim as stated fails: a service with price 0 whose window ends at 10:00 and
  starts at 11:00 is created and stored.
\<close>

theorem createService_invalid_counterexample:
  "cs_price free_backwards = ''0''
   \<and> cs_startTime free_backwards = ''11:00'' \<and> cs_endTime free_backwards = ''10:00''
   \<and> fst (createService net_ok open_market free_backwards) = Service_created ''service_1700000000000_7''
   \<and> map_of (services (snd (createService net_ok open_market free_backwards)))
        ''service_1700000000000_7''
      = Some (Json \<lparr>so_id = ''service_1700000000000_7'', so_provider = ''Alice'',
          so_title = ''French lesson'', so_description = ''One hour of French'',
          so_date = ''2023-12-01'', so_startTime = ''11:00'', so_endTime = ''10:00'',
          so_timeZone = ''UTC'', so_price = ''0'', so_status = SERVICE_AVAILABLE,
          so_createdAt = ''2023-11-14T22:13:20.000Z'', so_bookedBy = None, so_updatedAt = None\<rparr>)"
  by (simp add: createService_def storeObject_def isInitialized_def Let_def
        net_ok_def open_market_def free_backwards_def SERVICES_def)

theorem createService_no_validation_witness:
  "isInitialized open_market
   \<and> add_ok net_ok (SERVICES @ ''service_'' @ timestamp net_ok @ ''_'' @ random net_ok)
   \<and> fst (createService net_ok open_market free_backwards)
        = Service_created (''service_'' @ timestamp net_ok @ ''_'' @ random net_ok)
   \<and> (\<exists>service.
         map_of (services (snd (createService net_ok open_market free_backwards)))
           (''service_'' @ timestamp net_ok @ ''_'' @ random net_ok) = Some (Json service)
       \<and> so_status service = SERVICE_AVAILABLE
       \<and> so_price service = cs_price free_backwards
       \<and> so_startTime service = cs_startTime free_backwards
       \<and> so_endTime service = cs_endTime free_backwards
       \<and> so_date service = cs_date free_backwards
       \<and> so_provider service = cs_provider free_backwards
       \<and> so_title service = cs_title free_backwards)"
proof -
  have h1: "isInitialized open_market"
    by (simp add: isInitialized_def open_market_def)
  have h2: "add_ok net_ok (SERVICES @ ''service_'' @ timestamp net_ok @ ''_'' @ random net_ok)"
    by (simp add: net_ok_def)
  from createService_no_validation[OF h1 h2, of free_backwards] h1 h2
  show ?thesis by blast
qed

subsection \<open>Marketplace: filing a dispute\<close>

text \<open>
  Claim C8, as amended. \<open>fileDispute\<close> does not look at the booking's status: for a
  booking in any status, once the client is initialised and the bucket answers, it
  stores the booking with the status Disputed and a new pending dispute record.
  Whenever it answers that the dispute is filed, the stored booking is Disputed and
  the dispute record exists.
\<close>

theorem fileDispute_any_status:
  "(isInitialized s \<and> get_ok n (BOOKINGS @ fd_bookingId args)
      \<and> map_of (bookings s) (fd_bookingId args) = Some (Json booking)
      \<and> add_ok n (BOOKINGS @ fd_bookingId args)
      \<and> add_ok n (DISPUTES @ ''dispute_'' @ timestamp n @ ''_'' @ fd_bookingId args)
     \<longrightarrow> fst (fileDispute n s args)
           = Dispute_filed (''dispute_'' @ timestamp n @ ''_'' @ fd_bookingId args))
   \<and> (fst (fileDispute n s args) = Dispute_filed d
     \<longrightarrow> (\<exists>b. map_of (bookings (snd (fileDispute n s args))) (fd_bookingId args) = Some (Json b)
              \<and> bo_status b = BOOKING_DISPUTED)
         \<and> (\<exists>r. map_of (disputes (snd (fileDispute n s args))) d = Some (Json r)
              \<and> do_bookingId r = fd_bookingId args \<and> do_status r = DISPUTE_PENDING))"
  by (auto simp: fileDispute_def getObject_def storeObject_def Let_def update_conv'
        isInitialized_def
      split: option.splits json.splits if_splits)

text \<open>
  The claim as stated fails: a dispute is filed against a booking that is only
  Confirmed, and the dispute record is created.
\<close>

theorem fileDispute_confirmed_counterexample:
  "map_of (bookings booked_market) ''booking_1'' = Some (Json lesson_booking)
   \<and> bo_status lesson_booking = BOOKING_CONFIRMED
   \<and> fst (fileDispute net_ok booked_market bob_disputes) = Dispute_filed ''dispute_1700000000000_booking_1''
   \<and> map fst (disputes (snd (fileDispute net_ok booked_market bob_disputes)))
       = [''dispute_1700000000000_booking_1'']
   \<and> disputes booked_market = []"
  by (simp add: fileDispute_def getObject_def storeObject_def isInitialized_def Let_def
        net_ok_def booked_market_def bob_disputes_def lesson_booking_def
        BOOKINGS_def DISPUTES_def)

theorem fileDispute_any_status_witness:
  "isInitialized booked_market \<and> get_ok net_ok (BOOKINGS @ fd_bookingId bob_disputes)
   \<and> map_of (bookings booked_market) (fd_bookingId bob_disputes) = Some (Json lesson_booking)
   \<and> add_ok net_ok (BOOKINGS @ fd_bookingId bob_disputes)
   \<and> add_ok net_ok (DISPUTES @ ''dispute_'' @ timestamp net_ok @ ''_'' @ fd_bookingId bob_disputes)
   \<and> fst (fileDispute net_ok booked_market bob_disputes)
       = Dispute_filed (''dispute_'' @ timestamp net_ok @ ''_'' @ fd_bookingId bob_disputes)
   \<and> (\<exists>b. map_of (bookings (snd (fileDispute net_ok booked_market bob_disputes)))
             (fd_bookingId bob_disputes) = Some (Json b)
         \<and> bo_status b = BOOKING_DISPUTED)
   \<and> (\<exists>r. map_of (disputes (snd (fileDispute net_ok booked_market bob_disputes)))
             (''dispute_'' @ timestamp net_ok @ ''_'' @ fd_bookingId bob_disputes) = Some (Json r)
         \<and> do_bookingId r = fd_bookingId bob_disputes \<and> do_status r = DISPUTE_PENDING)"
proof -
  have h: "isInitialized booked_market \<and> get_ok net_ok (BOOKINGS @ fd_bookingId bob_disputes)
     \<and> map_of (bookings booked_market) (fd_bookingId bob_disputes) = Some (Json lesson_booking)
     \<and> add_ok net_ok (BOOKINGS @ fd_bookingId bob_disputes)
     \<and> add_ok net_ok (DISPUTES @ ''dispute_'' @ timestamp net_ok @ ''_'' @ fd_bookingId bob_disputes)"
    by (simp add: isInitialized_def booked_market_def net_ok_def bob_disputes_def)
  from fileDispute_any_status[of booked_market net_ok bob_disputes lesson_booking
      "''dispute_'' @ timestamp net_ok @ ''_'' @ fd_bookingId bob_disputes"] h
  show ?thesis by blast
qed

subsection \<open>Booking a service that is not available\<close>






subsection \<open>The order of the two writes of a booking\<close>

lemma market_book_order:
  "fst (bookService n s args) = Service_booked bid link \<longrightarrow>
     (\<exists>service booking.
        map_of (services s) (bk_serviceId args) = Some (Json service)
      \<and> so_status service = SERVICE_AVAILABLE
      \<and> bo_id booking = bid \<and> bo_serviceId booking = bk_serviceId args
      \<and> bo_status booking = BOOKING_CONFIRMED
      \<and> journal (snd (bookService n s args)) = journal s @
           [PutBooking bid booking, PutService (bk_serviceId args) (booked service bid (iso n))]
      \<and> services (apply_write s (PutBooking bid booking)) = services s
      \<and> map_of (bookings (snd (bookService n s args))) bid = Some (Json booking)
      \<and> map_of (services (snd (bookService n s args))) (bk_serviceId args)
           = Some (Json (booked service bid (iso n))))"
  by (auto simp: bookService_def getObject_def storeObject_def Let_def update_conv'
        isInitialized_def booked_def
      split: option.splits json.splits if_splits)

lemma market_book_succeeds:
  "isInitialized s \<and> get_ok n (SERVICES @ bk_serviceId args)
     \<and> map_of (services s) (bk_serviceId args) = Some (Json service)
     \<and> so_status service = SERVICE_AVAILABLE
     \<and> add_ok n (BOOKINGS @ ''booking_'' @ timestamp n @ ''_'' @ random n)
     \<and> add_ok n (SERVICES @ bk_serviceId args)
   \<longrightarrow> (\<exists>link. fst (bookService n s args)
                 = Service_booked (''booking_'' @ timestamp n @ ''_'' @ random n) link)"
  by (auto simp: bookService_def getObject_def storeObject_def Let_def isInitialized_def)

lemma moderia_book_order:
  "fst (moderia_bookService n s args) = Successfully_booked sid bid \<longrightarrow>
     (\<exists>listing booking.
        find_listing n (mb_serviceId args) (objects_of (services_bucket s)) = Inr (Some listing)
      \<and> sl_status listing = AVAILABLE
      \<and> sb_id booking = bid \<and> sb_serviceId booking = mb_serviceId args
      \<and> sb_status booking = CONFIRMED
      \<and> added (snd (moderia_bookService n s args)) = added s @
           [AddBooking (sb_objectKey booking) booking,
            AddService (sl_objectKey listing) (listing\<lparr>sl_status := BOOKED\<rparr>)]
      \<and> map_of (objects_of (bookings_bucket (snd (moderia_bookService n s args))))
           (sb_objectKey booking) = Some (Json booking)
      \<and> map_of (objects_of (services_bucket (snd (moderia_bookService n s args))))
           (sl_objectKey listing) = Some (Json (listing\<lparr>sl_status := BOOKED\<rparr>)))"
  by (cases "bookings_bucket s"; cases "m_created n"; cases "services_bucket s")
     (auto simp: moderia_bookService_def Let_def update_conv'
      split: option.splits sum.splits if_splits)

lemma moderia_book_succeeds:
  "studentClient s \<and> services_bucket s \<noteq> None
     \<and> (bookings_bucket s = None \<longrightarrow> m_created n \<noteq> None)
     \<and> m_query_ok n
     \<and> find_listing n (mb_serviceId args) (objects_of (services_bucket s)) = Inr (Some listing)
     \<and> sl_status listing = AVAILABLE
     \<and> m_add_ok n (''booking_'' @ ''booking_'' @ m_timestamp n @ ''_'' @ m_hex n @ ''.json'')
     \<and> m_add_ok n (sl_objectKey listing)
   \<longrightarrow> fst (moderia_bookService n s args)
         = Successfully_booked (mb_serviceId args) (''booking_'' @ m_timestamp n @ ''_'' @ m_hex n)"
  by (cases "bookings_bucket s"; cases "m_created n")
     (auto simp: moderia_bookService_def Let_def)


text \<open>
  Claim C4, as amended. Both providers write the booking first and claim the service
  afterwards. Whenever a booking operation succeeds, the service was stored as
  Available when the call began, the call made exactly two writes, the Confirmed
  booking and then the service with the status Booked, so the booking was written
  while the stored status was still Available, and at the end both records are in
  the store. When the client is initialised, the service is Available and the
  network answers, the operation does succeed.
\<close>

theorem booking_written_before_claim:
  "(fst (bookService n s args) = Service_booked bid link \<longrightarrow>
     (\<exists>service booking.
        map_of (services s) (bk_serviceId args) = Some (Json service)
      \<and> so_status service = SERVICE_AVAILABLE
      \<and> bo_id booking = bid \<and> bo_serviceId booking = bk_serviceId args
      \<and> bo_status booking = BOOKING_CONFIRMED
      \<and> journal (snd (bookService n s args)) = journal s @
           [PutBooking bid booking, PutService (bk_serviceId args) (booked service bid (iso n))]
      \<and> services (apply_write s (PutBooking bid booking)) = services s
      \<and> map_of (bookings (snd (bookService n s args))) bid = Some (Json booking)
      \<and> map_of (services (snd (bookService n s args))) (bk_serviceId args)
           = Some (Json (booked service bid (iso n)))))
   \<and> (isInitialized s \<and> get_ok n (SERVICES @ bk_serviceId args)
     \<and> map_of (services s) (bk_serviceId args) = Some (Json service0)
     \<and> so_status service0 = SERVICE_AVAILABLE
     \<and> add_ok n (BOOKINGS @ ''booking_'' @ timestamp n @ ''_'' @ random n)
     \<and> add_ok n (SERVICES @ bk_serviceId args)
     \<longrightarrow> (\<exists>link. fst (bookService n s args)
                 = Service_booked (''booking_'' @ timestamp n @ ''_'' @ random n) link))
   \<and> (fst (moderia_bookService mn ms margs) = Successfully_booked sid mbid \<longrightarrow>
     (\<exists>listing booking.
        find_listing mn (mb_serviceId margs) (objects_of (services_bucket ms)) = Inr (Some listing)
      \<and> sl_status listing = AVAILABLE
      \<and> sb_id booking = mbid \<and> sb_serviceId booking = mb_serviceId margs
      \<and> sb_status booking = CONFIRMED
      \<and> added (snd (moderia_bookService mn ms margs)) = added ms @
           [AddBooking (sb_objectKey booking) booking,
            AddService (sl_objectKey listing) (listing\<lparr>sl_status := BOOKED\<rparr>)]
      \<and> map_of (objects_of (bookings_bucket (snd (moderia_bookService mn ms margs))))
           (sb_objectKey booking) = Some (Json booking)
      \<and> map_of (objects_of (services_bucket (snd (moderia_bookService mn ms margs))))
           (sl_objectKey listing) = Some (Json (listing\<lparr>sl_status := BOOKED\<rparr>))))
   \<and> (studentClient ms \<and> services_bucket ms \<noteq> None
     \<and> (bookings_bucket ms = None \<longrightarrow> m_created mn \<noteq> None)
     \<and> m_query_ok mn
     \<and> find_listing mn (mb_serviceId margs) (objects_of (services_bucket ms)) = Inr (Some listing0)
     \<and> sl_status listing0 = AVAILABLE
     \<and> m_add_ok mn (''booking_'' @ ''booking_'' @ m_timestamp mn @ ''_'' @ m_hex mn @ ''.json'')
     \<and> m_add_ok mn (sl_objectKey listing0)
     \<longrightarrow> fst (moderia_bookService mn ms margs)
         = Successfully_booked (mb_serviceId margs) (''booking_'' @ m_timestamp mn @ ''_'' @ m_hex mn))"
  by (intro conjI market_book_order market_book_succeeds moderia_book_order moderia_book_succeeds)

text \<open>
  The claim as stated fails: in a successful booking of the lesson the first write
  goes to the booking and the second to the service, and after the first write the
  stored service is still Available.
\<close>

theorem booking_order_counterexample:
  "fst (bookService net_ok open_market bob_books)
     = Service_booked ''booking_1700000000000_7''
         ''https://zoom.example.com/meeting/booking_1700000000000_7''
   \<and> map write_key (journal (snd (bookService net_ok open_market bob_books)))
       = [''bookings/booking_1700000000000_7'', ''services/service_1'']
   \<and> map_of (services (apply_write open_market
         (hd (journal (snd (bookService net_ok open_market bob_books)))))) ''service_1''
       = Some (Json lesson)
   \<and> so_status lesson = SERVICE_AVAILABLE
   \<and> map fst (bookings (apply_write open_market
         (hd (journal (snd (bookService net_ok open_market bob_books))))))
       = [''booking_1700000000000_7'']"
  by (simp add: bookService_def getObject_def storeObject_def isInitialized_def Let_def
        net_ok_def open_market_def bob_books_def lesson_def SERVICES_def BOOKINGS_def)


theorem booking_written_before_claim_witness:
  "fst (bookService net_ok open_market bob_books)
     = Service_booked ''booking_1700000000000_7''
         ''https://zoom.example.com/meeting/booking_1700000000000_7''
   \<and> (\<exists>service booking.
        map_of (services open_market) (bk_serviceId bob_books) = Some (Json service)
      \<and> so_status service = SERVICE_AVAILABLE
      \<and> bo_id booking = ''booking_1700000000000_7''
      \<and> bo_serviceId booking = bk_serviceId bob_books
      \<and> bo_status booking = BOOKING_CONFIRMED
      \<and> journal (snd (bookService net_ok open_market bob_books)) = journal open_market @
           [PutBooking ''booking_1700000000000_7'' booking,
            PutService (bk_serviceId bob_books)
              (booked service ''booking_1700000000000_7'' (iso net_ok))]
      \<and> services (apply_write open_market (PutBooking ''booking_1700000000000_7'' booking))
           = services open_market
      \<and> map_of (bookings (snd (bookService net_ok open_market bob_books)))
           ''booking_1700000000000_7'' = Some (Json booking)
      \<and> map_of (services (snd (bookService net_ok open_market bob_books))) (bk_serviceId bob_books)
           = Some (Json (booked service ''booking_1700000000000_7'' (iso net_ok))))
   \<and> fst (moderia_bookService mod_ok classroom carol_books)
       = Successfully_booked ''service_1_aa'' ''booking_1700000000000_ab12cd34''
   \<and> (\<exists>listing booking.
        find_listing mod_ok (mb_serviceId carol_books) (objects_of (services_bucket classroom))
          = Inr (Some listing)
      \<and> sl_status listing = AVAILABLE
      \<and> sb_id booking = ''booking_1700000000000_ab12cd34''
      \<and> sb_serviceId booking = mb_serviceId carol_books
      \<and> sb_status booking = CONFIRMED
      \<and> added (snd (moderia_bookService mod_ok classroom carol_books)) = added classroom @
           [AddBooking (sb_objectKey booking) booking,
            AddService (sl_objectKey listing) (listing\<lparr>sl_status := BOOKED\<rparr>)]
      \<and> map_of (objects_of (bookings_bucket (snd (moderia_bookService mod_ok classroom carol_books))))
           (sb_objectKey booking) = Some (Json booking)
      \<and> map_of (objects_of (services_bucket (snd (moderia_bookService mod_ok classroom carol_books))))
           (sl_objectKey listing) = Some (Json (listing\<lparr>sl_status := BOOKED\<rparr>)))"
proof -
  have m: "fst (bookService net_ok open_market bob_books)
     = Service_booked ''booking_1700000000000_7''
         ''https://zoom.example.com/meeting/booking_1700000000000_7''"
    by (simp add: bookService_def getObject_def storeObject_def isInitialized_def Let_def
        net_ok_def open_market_def bob_books_def lesson_def SERVICES_def BOOKINGS_def)
  have c: "fst (moderia_bookService mod_ok classroom carol_books)
       = Successfully_booked ''service_1_aa'' ''booking_1700000000000_ab12cd34''"
    by (simp add: moderia_bookService_def Let_def mod_ok_def classroom_def carol_books_def
        french_class_def)
  note inst = booking_written_before_claim[of net_ok open_market bob_books
      "''booking_1700000000000_7''" "''https://zoom.example.com/meeting/booking_1700000000000_7''"
      lesson mod_ok classroom carol_books "''service_1_aa''" "''booking_1700000000000_ab12cd34''"
      french_class]
  from inst[THEN conjunct1, rule_format, OF m]
    inst[THEN conjunct2, THEN conjunct2, THEN conjunct1, rule_format, OF c] m c
  show ?thesis by (intro conjI)
qed

subsection \<open>Moderia: the quality analysis\<close>




subsection \<open>Release of funds and the quality verdict\<close>










subsection \<open>Marketplace: resolving a dispute\<close>



lemma bookings_after_dispute_write:
  "bookings (snd (storeObject n s (PutDispute k d))) = bookings s"
  by (simp add: storeObject_def)

lemma disputes_after_booking_write:
  "disputes (snd (storeObject n s (PutBooking k b))) = disputes s"
  by (simp add: storeObject_def)

lemma isInitialized_storeObject:
  "isInitialized (snd (storeObject n s w)) = isInitialized s"
  by (cases w) (simp_all add: storeObject_def isInitialized_def)



lemma resolve_no_record:
  assumes "isInitialized s" and "get_ok n (BOOKINGS @ rd_bookingId args)"
    and "map_of (bookings s) (rd_bookingId args) = Some (Json booking)"
    and "bo_status booking = BOOKING_DISPUTED"
    and "add_ok n (BOOKINGS @ rd_bookingId args)"
    and "\<not> query_ok n DISPUTES \<or> first_dispute (rd_bookingId args) (readable_disputes n s) = None"
  shows "disputes (snd (resolveDispute n s args)) = disputes s"
  using assms
  by (auto simp: resolveDispute_def getObject_def storeObject_def Let_def
        isInitialized_def queryObjects_def readable_disputes_def)









subsection \<open>Listing the services\<close>

























end
